theory Spec2Isabelle
  imports Main
begin

section \<open>Deep Space D-6: the rules engine\<close>

text \<open>
  A shallow embedding of the game's rules engine: the card catalogue and deck builder
  (\<^verbatim>\<open>logic/deck.ts\<close>), the dice helpers (\<^verbatim>\<open>logic/dice.ts\<close>), the threat engine
  (\<^verbatim>\<open>logic/threats.ts\<close>), the station engine (\<^verbatim>\<open>logic/stations.ts\<close>) and the
  reducer (\<^verbatim>\<open>state/reducer.ts\<close>).

  JavaScript numbers are modelled as \<open>int\<close> (the engine only ever adds, subtracts and
  compares whole numbers), array lengths and loop counters as \<open>nat\<close>, strings as
  \<open>string\<close>. The two pieces of hidden state of the source, the module-level
  \<^verbatim>\<open>instanceCounter\<close> and the generator behind \<^verbatim>\<open>Math.random\<close>, are made explicit
  in a record \<open>World\<close> that every function using them takes and returns.
\<close>

subsection \<open>Primitive types (\<^verbatim>\<open>types/game.ts\<close>)\<close>

datatype GameStatus = Idle | Playing | Won | Lost

datatype LossReason = LossHull | LossCrew

datatype TurnPhase = Rolling | Assigning | Drawing | Activating | Gathering

datatype Difficulty = Easy | Normal | Hard

datatype CrewFace = FCommander | FTactical | FMedical | FScience | FEngineering | FThreat

datatype ThreatSymbol = Skull | Lightning | Alien | Warning | Hazard | Nova

datatype StationId = Commander | Tactical | Engineering | Medical | Science | Scanners | Infirmary

text \<open>
  A die location is a string in the source: \<^verbatim>\<open>'pool'\<close>, one of the seven station
  names (\<^verbatim>\<open>'infirmary'\<close> and \<^verbatim>\<open>'scanners'\<close> are station names too), or
  \<^verbatim>\<open>'threat-' + id\<close>. These three families of strings are disjoint and the last one
  is injective in the id, so the location is the sum below: \<open>AtStation Infirmary\<close> is
  the string \<^verbatim>\<open>'infirmary'\<close>, \<open>OnThreat i\<close> is \<^verbatim>\<open>'threat-' + i\<close>,
  \<^verbatim>\<open>startsWith('threat-')\<close> is "is an \<open>OnThreat\<close>" and
  \<^verbatim>\<open>slice('threat-'.length)\<close> reads the id back.
\<close>

datatype DieLocation = Pool | AtStation StationId | OnThreat string

datatype ThreatKind = Internal | External | BossBarrier | Filler

record ResolutionRequirement =
  req_face :: CrewFace
  req_count :: int

record ThreatCard =
  card_id :: string
  card_name :: string
  kind :: ThreatKind
  activation :: ThreatSymbol
  maxHealth :: int
  description :: string
  resolution :: "ResolutionRequirement option"
  isOuroboros :: bool
  isBarrier :: bool
  immediateOnReveal :: bool

record ActiveThreat =
  threat_id :: string
  card :: ThreatCard
  health :: int
  stasisTokens :: int
  awayMission :: "int list"
  isDestroyed :: bool

record CrewDie =
  die_id :: int
  face :: CrewFace
  location :: DieLocation

record GameState =
  status :: GameStatus
  phase :: TurnPhase
  difficulty :: Difficulty
  hull :: int
  maxHull :: int
  shields :: int
  maxShields :: int
  crew :: "CrewDie list"
  activeThreats :: "ActiveThreat list"
  deck :: "ThreatCard list"
  discard :: "ThreatCard list"
  threatDieFace :: "ThreatSymbol option"
  selectedDieId :: "int option"
  tacticalDice :: "int list"
  log :: "string list"
  lossReason :: "LossReason option"
  turnNumber :: int
  elapsedSeconds :: int
  drawnCard :: "ThreatCard option"
  nebulaActive :: bool
  commsOfflineActive :: bool
  setupDrawsRemaining :: int
  usedStationActions :: "string list"

text \<open>
  The hidden state of the source. \<open>instanceCounter\<close> is the module variable of
  \<^verbatim>\<open>threats.ts\<close>. \<^verbatim>\<open>Math.random\<close> is an external generator: the engine only uses
  it as \<^verbatim>\<open>Math.floor(Math.random() * k)\<close>, some whole number below \<open>k\<close>. The model
  reads the next natural number of an arbitrary stream \<open>rng\<close> and reduces it modulo
  \<open>k\<close>, which ranges over exactly the numbers below \<open>k\<close>.
\<close>

record World =
  instanceCounter :: nat
  rng :: "nat \<Rightarrow> nat"
  rngPos :: nat

definition randomBelow :: "World \<Rightarrow> nat \<Rightarrow> nat \<times> World" where
  "randomBelow w k = (rng w (rngPos w) mod k, w\<lparr>rngPos := Suc (rngPos w)\<rparr>)"

subsection \<open>Strings\<close>

text \<open>Template literals print whole numbers in decimal, with a leading minus sign.\<close>

function string_of_nat :: "nat \<Rightarrow> string" where
  "string_of_nat n =
     (if n < 10 then [''0123456789'' ! n]
      else string_of_nat (n div 10) @ [''0123456789'' ! (n mod 10)])"
  by pat_completeness auto
termination
  by (relation "measure id") auto

declare string_of_nat.simps [simp del]

definition show_int :: "int \<Rightarrow> string" where
  "show_int i = (if i < 0 then ''-'' @ string_of_nat (nat (- i)) else string_of_nat (nat i))"

definition show_nat :: "nat \<Rightarrow> string" where
  "show_nat n = string_of_nat n"

text \<open>\<^verbatim>\<open>s.startsWith(p)\<close> and \<^verbatim>\<open>s.includes(p)\<close>.\<close>

definition startsWith :: "string \<Rightarrow> string \<Rightarrow> bool" where
  "startsWith s p = (take (length p) s = p)"

fun str_includes :: "string \<Rightarrow> string \<Rightarrow> bool" where
  "str_includes [] p = (p = [])"
| "str_includes (c # cs) p = (startsWith (c # cs) p \<or> str_includes cs p)"

text \<open>The em dash of the log messages, as its three UTF-8 bytes.\<close>

definition em_dash :: string where
  "em_dash = [CHR 0xE2, CHR 0x80, CHR 0x94]"

definition apostrophe :: string where
  "apostrophe = [CHR 0x27]"

subsection \<open>The card catalogue and the deck builder (\<^verbatim>\<open>logic/deck.ts\<close>)\<close>

fun DONT_PANIC_COUNTS :: "Difficulty \<Rightarrow> nat" where
  "DONT_PANIC_COUNTS Easy = 6"
| "DONT_PANIC_COUNTS Normal = 3"
| "DONT_PANIC_COUNTS Hard = 0"

definition DON_T_PANIC :: ThreatCard where
  "DON_T_PANIC = \<lparr>card_id = ''dont-panic'', card_name = ''Don'' @ apostrophe @ ''t Panic'',
     kind = Filler, activation = Skull, maxHealth = 0,
     description = ''Nothing happens. Breathe.'', resolution = None,
     isOuroboros = False, isBarrier = False, immediateOnReveal = False\<rparr>"

definition PANEL_EXPLOSION :: ThreatCard where
  "PANEL_EXPLOSION = \<lparr>card_id = ''panel-explosion'', card_name = ''Panel Explosion'',
     kind = Internal, activation = Warning, maxHealth = 0,
     description = ''ACTIVATE: Send 1 crew to the Infirmary.'',
     resolution = Some \<lparr>req_face = FEngineering, req_count = 1\<rparr>,
     isOuroboros = False, isBarrier = False, immediateOnReveal = False\<rparr>"

definition DISTRACTED :: ThreatCard where
  "DISTRACTED = \<lparr>card_id = ''distracted'', card_name = ''Distracted'',
     kind = Internal, activation = Nova, maxHealth = 0,
     description =
       ''REVEAL: Immediately lock 1 crew die here. ACTIVATE: Free the die; discard this card.'',
     resolution = None,
     isOuroboros = False, isBarrier = False, immediateOnReveal = True\<rparr>"

definition DISTRACTED_2 :: ThreatCard where
  "DISTRACTED_2 = DISTRACTED\<lparr>card_id := ''distracted-2''\<rparr>"

definition DISTRACTED_3 :: ThreatCard where
  "DISTRACTED_3 = DISTRACTED\<lparr>card_id := ''distracted-3''\<rparr>"

definition FRIENDLY_FIRE :: ThreatCard where
  "FRIENDLY_FIRE = \<lparr>card_id = ''friendly-fire'', card_name = ''Friendly Fire'',
     kind = Internal, activation = Lightning, maxHealth = 0,
     description = ''ACTIVATE: Deal 1 hull damage.'',
     resolution = Some \<lparr>req_face = FTactical, req_count = 1\<rparr>,
     isOuroboros = False, isBarrier = False, immediateOnReveal = False\<rparr>"

definition BOOST_MORALE :: ThreatCard where
  "BOOST_MORALE = \<lparr>card_id = ''boost-morale'', card_name = ''Boost Morale'',
     kind = Internal, activation = Nova, maxHealth = 0,
     description = ''ACTIVATE: Return 1 crew from the Infirmary.'',
     resolution = Some \<lparr>req_face = FCommander, req_count = 1\<rparr>,
     isOuroboros = False, isBarrier = False, immediateOnReveal = False\<rparr>"

definition NEBULA :: ThreatCard where
  "NEBULA = \<lparr>card_id = ''nebula'', card_name = ''Nebula'',
     kind = Internal, activation = Hazard, maxHealth = 0,
     description =
       ''While in play: shields cannot be recharged. ACTIVATE: Deal 1 shield damage.'',
     resolution = Some \<lparr>req_face = FScience, req_count = 2\<rparr>,
     isOuroboros = False, isBarrier = False, immediateOnReveal = False\<rparr>"

definition TIME_WARP :: ThreatCard where
  "TIME_WARP = \<lparr>card_id = ''time-warp'', card_name = ''Time Warp'',
     kind = Internal, activation = Nova, maxHealth = 0,
     description =
       ''While in play: external threats cannot be damaged below 1 HP. ACTIVATE: Shuffle the top 3 discard cards back into the deck.'',
     resolution = Some \<lparr>req_face = FScience, req_count = 2\<rparr>,
     isOuroboros = False, isBarrier = False, immediateOnReveal = False\<rparr>"

definition PANDEMIC :: ThreatCard where
  "PANDEMIC = \<lparr>card_id = ''pandemic'', card_name = ''Pandemic'',
     kind = Internal, activation = Hazard, maxHealth = 0,
     description = ''ACTIVATE: Send ALL crew currently in the pool to the Infirmary.'',
     resolution = Some \<lparr>req_face = FMedical, req_count = 2\<rparr>,
     isOuroboros = False, isBarrier = False, immediateOnReveal = False\<rparr>"

definition SPORE_INFESTATION :: ThreatCard where
  "SPORE_INFESTATION = \<lparr>card_id = ''spore-infestation'', card_name = ''Spore: Infestation'',
     kind = Internal, activation = Alien, maxHealth = 0,
     description = ''ACTIVATE: Send 2 crew to the Infirmary.'',
     resolution = Some \<lparr>req_face = FMedical, req_count = 1\<rparr>,
     isOuroboros = False, isBarrier = False, immediateOnReveal = False\<rparr>"

definition ROBOT_UPRISING :: ThreatCard where
  "ROBOT_UPRISING = \<lparr>card_id = ''robot-uprising'', card_name = ''Robot Uprising'',
     kind = Internal, activation = Warning, maxHealth = 0,
     description = ''ACTIVATE: Send 2 crew to the Infirmary.'',
     resolution = Some \<lparr>req_face = FTactical, req_count = 2\<rparr>,
     isOuroboros = False, isBarrier = False, immediateOnReveal = False\<rparr>"

definition COMMS_OFFLINE :: ThreatCard where
  "COMMS_OFFLINE = \<lparr>card_id = ''comms-offline'', card_name = ''Comms Offline'',
     kind = Internal, activation = Lightning, maxHealth = 0,
     description =
       ''While in play: Commander station is disabled. ACTIVATE: Draw 1 extra threat card.'',
     resolution = Some \<lparr>req_face = FEngineering, req_count = 2\<rparr>,
     isOuroboros = False, isBarrier = False, immediateOnReveal = False\<rparr>"

definition STRIKE_BOMBERS :: ThreatCard where
  "STRIKE_BOMBERS = \<lparr>card_id = ''strike-bombers'', card_name = ''Strike Bombers'',
     kind = External, activation = Lightning, maxHealth = 3,
     description = ''ACTIVATE: Deal 1 hull damage.'', resolution = None,
     isOuroboros = False, isBarrier = False, immediateOnReveal = False\<rparr>"

definition STRIKE_BOMBERS_2 :: ThreatCard where
  "STRIKE_BOMBERS_2 = STRIKE_BOMBERS\<lparr>card_id := ''strike-bombers-2''\<rparr>"

definition SCOUT :: ThreatCard where
  "SCOUT = \<lparr>card_id = ''scout'', card_name = ''Scout'',
     kind = External, activation = Hazard, maxHealth = 2,
     description = ''ACTIVATE: Deal 1 shield damage (or 1 hull if shields are down).'',
     resolution = None,
     isOuroboros = False, isBarrier = False, immediateOnReveal = False\<rparr>"

definition SCOUT_2 :: ThreatCard where
  "SCOUT_2 = SCOUT\<lparr>card_id := ''scout-2''\<rparr>"

definition PIRATES :: ThreatCard where
  "PIRATES = \<lparr>card_id = ''pirates'', card_name = ''Pirates'',
     kind = External, activation = Skull, maxHealth = 4,
     description = ''ACTIVATE: Deal 2 hull damage.'', resolution = None,
     isOuroboros = False, isBarrier = False, immediateOnReveal = False\<rparr>"

definition SPACE_PIRATES :: ThreatCard where
  "SPACE_PIRATES = \<lparr>card_id = ''space-pirates'', card_name = ''Space Pirates'',
     kind = External, activation = Skull, maxHealth = 5,
     description = ''ACTIVATE: Deal 2 hull damage and 1 shield damage.'', resolution = None,
     isOuroboros = False, isBarrier = False, immediateOnReveal = False\<rparr>"

definition ORBITAL_CANNON :: ThreatCard where
  "ORBITAL_CANNON = \<lparr>card_id = ''orbital-cannon'', card_name = ''Orbital Cannon'',
     kind = External, activation = Warning, maxHealth = 6,
     description =
       ''Can only be targeted when it is the ONLY active external threat. ACTIVATE: Deal 3 hull damage.'',
     resolution = None,
     isOuroboros = False, isBarrier = False, immediateOnReveal = False\<rparr>"

definition SOLAR_WINDS_FLAGSHIP :: ThreatCard where
  "SOLAR_WINDS_FLAGSHIP = \<lparr>card_id = ''solar-winds-flagship'',
     card_name = ''Solar Winds Flagship'',
     kind = External, activation = Skull, maxHealth = 1,
     description = ''REVEAL: Immediately deal 5 hull damage, then discard.'',
     resolution = None,
     isOuroboros = False, isBarrier = False, immediateOnReveal = True\<rparr>"

definition HIJACKERS :: ThreatCard where
  "HIJACKERS = \<lparr>card_id = ''hijackers'', card_name = ''Hijackers'',
     kind = External, activation = Alien, maxHealth = 3,
     description = ''ACTIVATE: Send 1 crew to the Infirmary.'', resolution = None,
     isOuroboros = False, isBarrier = False, immediateOnReveal = False\<rparr>"

definition OUROBOROS_BARRIER :: ThreatCard where
  "OUROBOROS_BARRIER = \<lparr>card_id = ''ouroboros-barrier'', card_name = ''Ouroboros Barrier'',
     kind = BossBarrier, activation = Alien, maxHealth = 4,
     description =
       ''Protects Ouroboros from all damage. When destroyed, Ouroboros can be attacked. ACTIVATE: Deal 2 hull damage and regenerate to full HP.'',
     resolution = None,
     isOuroboros = False, isBarrier = True, immediateOnReveal = False\<rparr>"

definition OUROBOROS :: ThreatCard where
  "OUROBOROS = \<lparr>card_id = ''ouroboros'', card_name = ''Ouroboros'',
     kind = External, activation = Alien, maxHealth = 8,
     description =
       ''Final boss. Cannot be damaged while the Ouroboros Barrier is active. ACTIVATE: Deal 3 hull damage.'',
     resolution = None,
     isOuroboros = True, isBarrier = False, immediateOnReveal = False\<rparr>"

definition CORE_CARDS :: "ThreatCard list" where
  "CORE_CARDS =
     [PANEL_EXPLOSION, PANEL_EXPLOSION, DISTRACTED, DISTRACTED_2, DISTRACTED_3,
      FRIENDLY_FIRE, FRIENDLY_FIRE, BOOST_MORALE, NEBULA, TIME_WARP, PANDEMIC,
      SPORE_INFESTATION, ROBOT_UPRISING, COMMS_OFFLINE,
      STRIKE_BOMBERS, STRIKE_BOMBERS_2, SCOUT, SCOUT_2, PIRATES, SPACE_PIRATES,
      ORBITAL_CANNON, SOLAR_WINDS_FLAGSHIP, HIJACKERS,
      OUROBOROS_BARRIER]"

text \<open>
  The Fisher-Yates loop of \<^verbatim>\<open>shuffle\<close>: \<open>i\<close> runs from \<open>length - 1\<close> down to \<open>1\<close>,
  \<open>j\<close> is a random index in \<open>0..i\<close>, and the destructuring assignment
  \<^verbatim>\<open>[arr[i], arr[j]] = [arr[j], arr[i]]\<close> reads both entries before it writes them.
\<close>

fun shuffle_loop :: "World \<Rightarrow> nat \<Rightarrow> 'a list \<Rightarrow> 'a list \<times> World" where
  "shuffle_loop w 0 arr = (arr, w)"
| "shuffle_loop w (Suc k) arr =
     (let i = Suc k;
          (j, w') = randomBelow w (i + 1)
      in shuffle_loop w' k (arr[i := arr ! j, j := arr ! i]))"

definition shuffle :: "World \<Rightarrow> 'a list \<Rightarrow> 'a list \<times> World" where
  "shuffle w items = shuffle_loop w (length items - 1) items"

definition buildDeck :: "World \<Rightarrow> Difficulty \<Rightarrow> ThreatCard list \<times> World" where
  "buildDeck w dif =
     (let dontPanicCount = DONT_PANIC_COUNTS dif;
          dontPanics = replicate dontPanicCount DON_T_PANIC;
          (mainDeck, w') = shuffle w (CORE_CARDS @ dontPanics)
      in (mainDeck @ [OUROBOROS], w'))"

definition drawCard :: "ThreatCard list \<Rightarrow> (ThreatCard \<times> ThreatCard list) option" where
  "drawCard deck0 = (case deck0 of [] \<Rightarrow> None | c # rest \<Rightarrow> Some (c, rest))"

subsection \<open>Dice (\<^verbatim>\<open>logic/dice.ts\<close>)\<close>

definition CREW_FACE_DISTRIBUTION :: "CrewFace list" where
  "CREW_FACE_DISTRIBUTION = [FCommander, FTactical, FMedical, FScience, FEngineering, FThreat]"

definition rollCrewFace :: "World \<Rightarrow> CrewFace \<times> World" where
  "rollCrewFace w =
     (let (index, w') = randomBelow w (length CREW_FACE_DISTRIBUTION)
      in (CREW_FACE_DISTRIBUTION ! index, w'))"

fun rollAllCrewDice :: "World \<Rightarrow> nat \<Rightarrow> CrewFace list \<times> World" where
  "rollAllCrewDice w 0 = ([], w)"
| "rollAllCrewDice w (Suc n) =
     (let (f, w') = rollCrewFace w;
          (fs, w'') = rollAllCrewDice w' n
      in (f # fs, w''))"

definition calculateTacticalDamage :: "int \<Rightarrow> int" where
  "calculateTacticalDamage diceCount = (if diceCount \<le> 0 then 0 else 1 + (diceCount - 1) * 2)"

subsection \<open>The threat engine (\<^verbatim>\<open>logic/threats.ts\<close>)\<close>

definition createActiveThreat :: "World \<Rightarrow> ThreatCard \<Rightarrow> ActiveThreat \<times> World" where
  "createActiveThreat w c =
     (let n = Suc (instanceCounter w)
      in (\<lparr>threat_id = card_id c @ ''-'' @ show_nat n, card = c, health = maxHealth c,
           stasisTokens = 0, awayMission = [], isDestroyed = False\<rparr>,
          w\<lparr>instanceCounter := n\<rparr>))"

record ShipDamageResult =
  dmg_hull :: int
  dmg_shields :: int
  dmg_log :: "string list"

definition applyDamage :: "int \<Rightarrow> int \<Rightarrow> int \<Rightarrow> int \<Rightarrow> ShipDamageResult" where
  "applyDamage hull0 shields0 hullDmg shieldDmg =
     (let (newHull1, newShields1, log1) =
            (if shieldDmg > 0 then
               (let actual = min shields0 shieldDmg;
                    newShields = shields0 - actual;
                    overflow = shieldDmg - actual
                in if overflow > 0 then
                     (hull0 - overflow, newShields,
                      [show_int shieldDmg @ '' shield damage '' @ em_dash
                         @ '' shields depleted, '' @ show_int overflow
                         @ '' hull damage overflow.''])
                   else (hull0, newShields, [show_int shieldDmg @ '' shield damage.'']))
             else (hull0, shields0, []));
          (newHull2, newShields2, log2) =
            (if hullDmg > 0 then
               (let absorbed = min newShields1 hullDmg;
                    newShields = newShields1 - absorbed;
                    remaining = hullDmg - absorbed;
                    lg = (if absorbed > 0 then
                            log1 @ [show_int hullDmg @ '' hull damage '' @ em_dash
                              @ '' shields absorbed '' @ show_int absorbed @ '', ''
                              @ show_int remaining @ '' hull damage.'']
                          else log1 @ [show_int hullDmg @ '' hull damage.''])
                in (newHull1 - remaining, newShields, lg))
             else (newHull1, newShields1, log1))
      in \<lparr>dmg_hull = max 0 newHull2, dmg_shields = max 0 newShields2, dmg_log = log2\<rparr>)"

text \<open>
  The two stages of ship damage as the specification words them, for comparison with
  \<open>applyDamage\<close>: a direct shield hit, whose excess beyond the available shields
  overflows to the hull; then a hull hit, which the remaining shields absorb first.
  Both resources are floored at zero at the end.
\<close>

definition spec_direct_shield_hit :: "int \<times> int \<Rightarrow> int \<Rightarrow> int \<times> int" where
  "spec_direct_shield_hit hs shieldDmg =
     (case hs of (h, s) \<Rightarrow>
        if shieldDmg \<le> s then (h, s - shieldDmg) else (h - (shieldDmg - s), 0))"

definition spec_absorbed_hull_hit :: "int \<times> int \<Rightarrow> int \<Rightarrow> int \<times> int" where
  "spec_absorbed_hull_hit hs hullDmg =
     (case hs of (h, s) \<Rightarrow>
        (let absorbed = min s hullDmg in (h - (hullDmg - absorbed), s - absorbed)))"

definition spec_applyDamage :: "int \<Rightarrow> int \<Rightarrow> int \<Rightarrow> int \<Rightarrow> int \<times> int" where
  "spec_applyDamage hull0 shields0 hullDmg shieldDmg =
     (case spec_absorbed_hull_hit (spec_direct_shield_hit (hull0, shields0) shieldDmg) hullDmg
      of (h, s) \<Rightarrow> (max 0 h, max 0 s))"

definition canTargetThreat :: "ActiveThreat \<Rightarrow> ActiveThreat list \<Rightarrow> bool" where
  "canTargetThreat threat allThreats =
     (if kind (card threat) \<noteq> External \<and> kind (card threat) \<noteq> BossBarrier then False
      else if isDestroyed threat then False
      else if card_id (card threat) = ''orbital-cannon'' then
        (let otherExternal =
               filter (\<lambda>t. threat_id t \<noteq> threat_id threat
                            \<and> (kind (card t) = External \<or> kind (card t) = BossBarrier)
                            \<and> \<not> isDestroyed t) allThreats
         in length otherExternal = 0)
      else if isOuroboros (card threat) then
        (let barrier = find (\<lambda>t. isBarrier (card t) \<and> \<not> isDestroyed t) allThreats
         in barrier = None)
      else True)"

definition applyTacticalDamage ::
  "ActiveThreat list \<Rightarrow> string \<Rightarrow> int \<Rightarrow> bool \<Rightarrow> ActiveThreat list" where
  "applyTacticalDamage threats targetId damage timeWarpActive =
     map (\<lambda>t. if threat_id t \<noteq> targetId then t
               else (let newHealth0 = health t - damage;
                         newHealth1 = (if timeWarpActive \<and> \<not> isOuroboros (card t)
                                       then max 1 newHealth0 else newHealth0);
                         newHealth = max 0 newHealth1
                     in t\<lparr>health := newHealth, isDestroyed := (newHealth = 0)\<rparr>)) threats"

text \<open>
  \<^verbatim>\<open>sendToInfirmary\<close>: the loop stops as soon as \<open>count\<close> dice were sent; it
  pushes its message onto the caller's log, which the model returns.
\<close>

fun sendToInfirmary_loop :: "CrewDie list \<Rightarrow> int \<Rightarrow> int \<Rightarrow> CrewDie list \<times> int" where
  "sendToInfirmary_loop [] cnt sent = ([], sent)"
| "sendToInfirmary_loop (d # ds) cnt sent =
     (if sent < cnt then
        (if location d = Pool then
           (case sendToInfirmary_loop ds cnt (sent + 1) of
              (r, sent') \<Rightarrow> (d\<lparr>location := AtStation Infirmary\<rparr> # r, sent'))
         else
           (case sendToInfirmary_loop ds cnt sent of (r, sent') \<Rightarrow> (d # r, sent')))
      else (d # ds, sent))"

definition sendToInfirmary ::
  "CrewDie list \<Rightarrow> int \<Rightarrow> string list \<Rightarrow> CrewDie list \<times> string list" where
  "sendToInfirmary crew0 cnt log0 =
     (case sendToInfirmary_loop crew0 cnt 0 of
        (result, sent) \<Rightarrow>
          (result, if sent > 0 then log0 @ [show_int sent @ '' crew sent to Infirmary.'']
                   else log0))"

record ActivationResult =
  act_hull :: int
  act_shields :: int
  act_threats :: "ActiveThreat list"
  act_crew :: "CrewDie list"
  act_log :: "string list"
  act_extraDraw :: bool

text \<open>
  The pattern \<^verbatim>\<open>const dmg = applyDamage(hull, shields, h, s); hull = dmg.hull;
  shields = dmg.shields; log.push(...dmg.log)\<close> of the activation table.
\<close>

definition dealDamage :: "ActivationResult \<Rightarrow> int \<Rightarrow> int \<Rightarrow> ActivationResult" where
  "dealDamage acc hullDmg shieldDmg =
     (let dmg = applyDamage (act_hull acc) (act_shields acc) hullDmg shieldDmg
      in acc\<lparr>act_hull := dmg_hull dmg, act_shields := dmg_shields dmg,
              act_log := act_log acc @ dmg_log dmg\<rparr>)"

text \<open>The pattern \<^verbatim>\<open>crew = sendToInfirmary(crew, n, log)\<close>.\<close>

definition sendCrew :: "ActivationResult \<Rightarrow> int \<Rightarrow> ActivationResult" where
  "sendCrew acc n =
     (case sendToInfirmary (act_crew acc) n (act_log acc) of
        (crew1, log1) \<Rightarrow> acc\<lparr>act_crew := crew1, act_log := log1\<rparr>)"

text \<open>The \<^verbatim>\<open>switch (threat.card.id)\<close> of the activation table.\<close>

definition cardEffect :: "ActiveThreat \<Rightarrow> ActivationResult \<Rightarrow> ActivationResult" where
  "cardEffect threat acc =
     (let cid = card_id (card threat) in
      if cid = ''panel-explosion'' then sendCrew acc 1
      else if cid = ''distracted'' \<or> cid = ''distracted-2'' \<or> cid = ''distracted-3'' then
        acc\<lparr>act_crew := map (\<lambda>d. if location d = OnThreat (threat_id threat)
                                     then d\<lparr>location := Pool\<rparr> else d) (act_crew acc),
            act_threats := filter (\<lambda>t. threat_id t \<noteq> threat_id threat) (act_threats acc),
            act_log := act_log acc @ [''Distracted crew member returns to duty.'']\<rparr>
      else if cid = ''friendly-fire'' then dealDamage acc 1 0
      else if cid = ''boost-morale'' then
        (let inInfirmary = filter (\<lambda>d. location d = AtStation Infirmary) (act_crew acc)
         in case inInfirmary of
              first # _ \<Rightarrow>
                acc\<lparr>act_crew := map (\<lambda>d. if die_id d = die_id first
                                             then d\<lparr>location := Pool\<rparr> else d) (act_crew acc),
                    act_log := act_log acc @ [''Morale boost! 1 crew recovered from Infirmary.'']\<rparr>
            | [] \<Rightarrow> acc\<lparr>act_log := act_log acc @ [''Boost Morale: no crew in Infirmary.'']\<rparr>)
      else if cid = ''nebula'' then dealDamage acc 0 1
      else if cid = ''time-warp'' then
        acc\<lparr>act_log := act_log acc
               @ [''Time Warp: top discard cards shuffled back into deck.'']\<rparr>
      else if cid = ''pandemic'' then
        (let poolCrew = filter (\<lambda>d. location d = Pool) (act_crew acc)
         in acc\<lparr>act_crew := map (\<lambda>d. if location d = Pool
                                         then d\<lparr>location := AtStation Infirmary\<rparr> else d)
                                  (act_crew acc),
                act_log := act_log acc
                  @ [''Pandemic! '' @ show_nat (length poolCrew) @ '' crew sent to Infirmary.'']\<rparr>)
      else if cid = ''spore-infestation'' then sendCrew acc 2
      else if cid = ''robot-uprising'' then sendCrew acc 2
      else if cid = ''comms-offline'' then
        acc\<lparr>act_extraDraw := True,
            act_log := act_log acc @ [''Comms Offline: draw 1 extra threat card this turn.'']\<rparr>
      else if cid = ''strike-bombers'' \<or> cid = ''strike-bombers-2'' then dealDamage acc 1 0
      else if cid = ''scout'' \<or> cid = ''scout-2'' then dealDamage acc 0 1
      else if cid = ''pirates'' then dealDamage acc 2 0
      else if cid = ''space-pirates'' then dealDamage acc 2 1
      else if cid = ''orbital-cannon'' then dealDamage acc 3 0
      else if cid = ''hijackers'' then sendCrew acc 1
      else if cid = ''ouroboros'' then dealDamage acc 3 0
      else acc)"

text \<open>The body of the \<^verbatim>\<open>for (const threat of ordered)\<close> loop.\<close>

definition activateOne ::
  "ThreatSymbol \<Rightarrow> ActiveThreat \<Rightarrow> ActivationResult \<Rightarrow> ActivationResult" where
  "activateOne rolledFace threat acc =
     (if kind (card threat) = Filler then acc
      else if activation (card threat) \<noteq> rolledFace then acc
      else if isDestroyed threat \<and> \<not> isBarrier (card threat) then acc
      else
        (case find (\<lambda>t. threat_id t = threat_id threat) (act_threats acc) of
           None \<Rightarrow> acc
         | Some current \<Rightarrow>
             if stasisTokens current > 0 then
               acc\<lparr>act_threats :=
                     map (\<lambda>t. if threat_id t = threat_id threat
                               then t\<lparr>stasisTokens := stasisTokens t - 1\<rparr> else t)
                       (act_threats acc),
                   act_log := act_log acc
                     @ [card_name (card threat) @ '' activation suppressed by stasis token.'']\<rparr>
             else
               (let acc1 = acc\<lparr>act_log := act_log acc
                                  @ [card_name (card threat) @ '' activates!'']\<rparr>
                in if isBarrier (card threat) then
                     (let acc2 = acc1\<lparr>act_threats :=
                                   map (\<lambda>t. if threat_id t = threat_id threat
                                             then t\<lparr>health := maxHealth (card t),
                                                    isDestroyed := False\<rparr>
                                             else t) (act_threats acc1)\<rparr>;
                          acc3 = dealDamage acc2 2 0
                      in acc3\<lparr>act_log := act_log acc3
                                 @ [''Ouroboros Barrier regenerated to full health!'']\<rparr>)
                   else cardEffect threat acc1)))"

text \<open>
  \<^verbatim>\<open>Array.prototype.sort\<close> is stable, and so is \<open>sort_key\<close>: internal threats
  first, every group in its original order.
\<close>

definition activateThreats :: "GameState \<Rightarrow> ThreatSymbol \<Rightarrow> ActivationResult" where
  "activateThreats state rolledFace =
     (let ordered = sort_key (\<lambda>t. if kind (card t) = Internal then (0::nat) else 1)
                      (activeThreats state)
      in fold (activateOne rolledFace) ordered
           \<lparr>act_hull = hull state, act_shields = shields state,
            act_threats = activeThreats state, act_crew = crew state,
            act_log = [], act_extraDraw = False\<rparr>)"

text \<open>
  What the specification says one activation of the boss barrier does to the running
  totals of the activation pass, for comparison with \<open>activateOne\<close>: the barrier
  (every entry of the threat list with its instance id) is back at its template's
  maximum health and no longer destroyed, and 2 hull damage went through
  \<open>applyDamage\<close>.
\<close>

definition spec_barrier_activation :: "ActiveThreat \<Rightarrow> ActivationResult \<Rightarrow> ActivationResult" where
  "spec_barrier_activation b acc =
     acc\<lparr>act_threats := map (\<lambda>t. if threat_id t = threat_id b
                                then t\<lparr>health := maxHealth (card t), isDestroyed := False\<rparr>
                                else t) (act_threats acc),
         act_hull := dmg_hull (applyDamage (act_hull acc) (act_shields acc) 2 0),
         act_shields := dmg_shields (applyDamage (act_hull acc) (act_shields acc) 2 0),
         act_log := act_log acc @ [card_name (card b) @ '' activates!'']
                      @ dmg_log (applyDamage (act_hull acc) (act_shields acc) 2 0)
                      @ [''Ouroboros Barrier regenerated to full health!'']\<rparr>"

definition checkWin :: "'a list \<Rightarrow> ActiveThreat list \<Rightarrow> bool" where
  "checkWin deck0 threats =
     (if length deck0 > 0 then False
      else (let remaining =
                  filter (\<lambda>t. (kind (card t) = External \<or> isOuroboros (card t)
                                \<or> isBarrier (card t)) \<and> \<not> isDestroyed t) threats
            in length remaining = 0))"

definition checkCrewLoss :: "CrewDie list \<Rightarrow> bool" where
  "checkCrewLoss cs =
     list_all (\<lambda>d. location d = AtStation Infirmary \<or> location d = AtStation Scanners
                  \<or> (case location d of OnThreat _ \<Rightarrow> True | _ \<Rightarrow> False)) cs"


subsection \<open>The station engine (\<^verbatim>\<open>logic/stations.ts\<close>)\<close>

definition getDiceAtStation :: "CrewDie list \<Rightarrow> StationId \<Rightarrow> CrewDie list" where
  "getDiceAtStation crew0 stationId = filter (\<lambda>d. location d = AtStation stationId) crew0"

definition countAtStation :: "CrewDie list \<Rightarrow> StationId \<Rightarrow> nat" where
  "countAtStation crew0 stationId = length (getDiceAtStation crew0 stationId)"

definition resolveEngineering :: "int \<Rightarrow> int \<Rightarrow> int \<Rightarrow> int" where
  "resolveEngineering hull0 maxHull0 engineeringDiceCount =
     min maxHull0 (hull0 + engineeringDiceCount)"

definition resolveMedical :: "CrewDie list \<Rightarrow> CrewDie list" where
  "resolveMedical crew0 =
     map (\<lambda>d. if location d = AtStation Infirmary then d\<lparr>location := Pool\<rparr> else d) crew0"

text \<open>
  \<^verbatim>\<open>releaseFromScanners\<close> maps over the crew with a \<^verbatim>\<open>released\<close> flag: only the
  first die found in the scanners is moved.
\<close>

fun releaseFromScanners :: "CrewDie list \<Rightarrow> CrewDie list" where
  "releaseFromScanners [] = []"
| "releaseFromScanners (d # ds) =
     (if location d = AtStation Scanners then d\<lparr>location := Pool\<rparr> # ds
      else d # releaseFromScanners ds)"

definition resolveScience :: "int \<Rightarrow> int" where
  "resolveScience maxShields0 = maxShields0"

definition placeStasisToken :: "ActiveThreat list \<Rightarrow> string \<Rightarrow> ActiveThreat list" where
  "placeStasisToken threats threatId =
     map (\<lambda>t. if threat_id t = threatId then t\<lparr>stasisTokens := stasisTokens t + 1\<rparr> else t)
       threats"

definition commanderChangeDie :: "CrewDie list \<Rightarrow> int \<Rightarrow> CrewFace \<Rightarrow> CrewDie list" where
  "commanderChangeDie crew0 dieId newFace =
     map (\<lambda>d. if die_id d = dieId then d\<lparr>face := newFace\<rparr> else d) crew0"

definition commanderRerollCount :: "CrewDie list \<Rightarrow> nat" where
  "commanderRerollCount crew0 = length (filter (\<lambda>d. location d = Pool) crew0)"

definition isThreatResolved :: "ActiveThreat \<Rightarrow> CrewDie list \<Rightarrow> bool" where
  "isThreatResolved threat crew0 =
     (case resolution (card threat) of
        None \<Rightarrow> False
      | Some r \<Rightarrow>
          (let assigned = filter (\<lambda>d. location d = OnThreat (threat_id threat)
                                      \<and> face d = req_face r) crew0
           in int (length assigned) \<ge> req_count r))"

definition resolveThreat ::
  "ActiveThreat list \<Rightarrow> CrewDie list \<Rightarrow> string \<Rightarrow> ActiveThreat list \<times> CrewDie list" where
  "resolveThreat threats crew0 threatId =
     (let newCrew = map (\<lambda>d. if location d = OnThreat threatId
                              then d\<lparr>location := Pool\<rparr> else d) crew0;
          newThreats = filter (\<lambda>t. threat_id t \<noteq> threatId) threats
      in (newThreats, newCrew))"

definition processScanners :: "CrewDie list \<Rightarrow> CrewDie list \<times> nat" where
  "processScanners crew0 =
     (let scannerDice = filter (\<lambda>d. location d = AtStation Scanners) crew0;
          groups = length scannerDice div 3
      in if groups = 0 then (crew0, 0)
         else (let toRelease = map die_id (take (groups * 3) scannerDice);
                   newCrew = map (\<lambda>d. if die_id d \<in> set toRelease
                                       then d\<lparr>location := Pool\<rparr> else d) crew0
               in (newCrew, groups)))"

definition gatherCrew :: "CrewDie list \<Rightarrow> ActiveThreat list \<Rightarrow> CrewDie list" where
  "gatherCrew crew0 threats =
     (let activeThreatIds = set (map threat_id threats)
      in map (\<lambda>d.
           if location d = AtStation Infirmary \<or> location d = AtStation Scanners then d
           else (case location d of
                   OnThreat threatId \<Rightarrow>
                     if threatId \<in> activeThreatIds then d else d\<lparr>location := Pool\<rparr>
                 | _ \<Rightarrow> d\<lparr>location := Pool\<rparr>)) crew0)"

definition isNebulaActive :: "ActiveThreat list \<Rightarrow> bool" where
  "isNebulaActive threats =
     list_ex (\<lambda>t. card_id (card t) = ''nebula'' \<and> \<not> isDestroyed t) threats"

definition isCommsOfflineActive :: "ActiveThreat list \<Rightarrow> bool" where
  "isCommsOfflineActive threats =
     list_ex (\<lambda>t. card_id (card t) = ''comms-offline'' \<and> \<not> isDestroyed t) threats"

definition isTimeWarpActive :: "ActiveThreat list \<Rightarrow> bool" where
  "isTimeWarpActive threats =
     list_ex (\<lambda>t. card_id (card t) = ''time-warp'' \<and> \<not> isDestroyed t) threats"

fun stationForFace :: "CrewFace \<Rightarrow> StationId option" where
  "stationForFace FCommander = Some Commander"
| "stationForFace FTactical = Some Tactical"
| "stationForFace FMedical = Some Medical"
| "stationForFace FScience = Some Science"
| "stationForFace FEngineering = Some Engineering"
| "stationForFace FThreat = Some Scanners"

definition canAssignToStation :: "CrewDie \<Rightarrow> StationId \<Rightarrow> bool \<Rightarrow> bool" where
  "canAssignToStation die stationId commsOffline =
     (if location die \<noteq> Pool then False
      else if stationId = Infirmary \<or> stationId = Scanners then False
      else if commsOffline \<and> stationId = Commander then False
      else (case map_of [(Commander, FCommander), (Tactical, FTactical), (Medical, FMedical),
                         (Science, FScience), (Engineering, FEngineering)] stationId of
              None \<Rightarrow> False
            | Some expectedFace \<Rightarrow> face die = expectedFace))"

definition canAssignToThreat :: "CrewDie \<Rightarrow> ActiveThreat \<Rightarrow> TurnPhase \<Rightarrow> bool" where
  "canAssignToThreat die threat ph =
     (if ph \<noteq> Assigning then False
      else if location die \<noteq> Pool then False
      else if kind (card threat) \<noteq> Internal then False
      else (case resolution (card threat) of
              None \<Rightarrow> False
            | Some r \<Rightarrow> face die = req_face r))"

subsection \<open>The reducer (\<^verbatim>\<open>state/actions.ts\<close>, \<^verbatim>\<open>state/reducer.ts\<close>)\<close>

text \<open>
  The last constructor stands for an action object whose \<^verbatim>\<open>type\<close> is none of the
  known ones (the \<^verbatim>\<open>default\<close> arm of the reducer's switch).
\<close>

datatype GameAction =
    NEW_GAME Difficulty
  | TICK
  | START_ROLL
  | ROLL_COMPLETE "CrewFace list"
  | SELECT_DIE "int option"
  | ASSIGN_TO_STATION int StationId
  | ASSIGN_TO_THREAT int string
  | USE_ENGINEERING
  | USE_MEDICAL
  | USE_MEDICAL_SCANNERS
  | USE_TACTICAL string
  | USE_SCIENCE_SHIELDS
  | USE_SCIENCE_STASIS string
  | USE_COMMANDER_REROLL
  | USE_COMMANDER_CHANGE int CrewFace
  | END_ASSIGN_PHASE
  | ACKNOWLEDGE_DRAW
  | START_THREAT_ROLL
  | THREAT_ROLL_COMPLETE ThreatSymbol
  | ACKNOWLEDGE_ACTIVATE
  | ACKNOWLEDGE_GATHER
  | TEST_LOAD_STATE GameState
  | UNKNOWN_ACTION

text \<open>How template literals print the string-valued enumerations.\<close>

fun faceName :: "CrewFace \<Rightarrow> string" where
  "faceName FCommander = ''commander''"
| "faceName FTactical = ''tactical''"
| "faceName FMedical = ''medical''"
| "faceName FScience = ''science''"
| "faceName FEngineering = ''engineering''"
| "faceName FThreat = ''threat''"

fun stationName :: "StationId \<Rightarrow> string" where
  "stationName Commander = ''commander''"
| "stationName Tactical = ''tactical''"
| "stationName Engineering = ''engineering''"
| "stationName Medical = ''medical''"
| "stationName Science = ''science''"
| "stationName Scanners = ''scanners''"
| "stationName Infirmary = ''infirmary''"

fun symbolName :: "ThreatSymbol \<Rightarrow> string" where
  "symbolName Skull = ''skull''"
| "symbolName Lightning = ''lightning''"
| "symbolName Alien = ''alien''"
| "symbolName Warning = ''warning''"
| "symbolName Hazard = ''hazard''"
| "symbolName Nova = ''nova''"

text \<open>\<^verbatim>\<open>Array.prototype.findIndex\<close>, with \<open>None\<close> for \<open>-1\<close>.\<close>

fun findIndex :: "('a \<Rightarrow> bool) \<Rightarrow> 'a list \<Rightarrow> nat option" where
  "findIndex P [] = None"
| "findIndex P (x # xs) =
     (if P x then Some 0 else (case findIndex P xs of None \<Rightarrow> None | Some i \<Rightarrow> Some (Suc i)))"

text \<open>\<^verbatim>\<open>faces[index] ?? fallback\<close>: reading past the end gives \<^verbatim>\<open>undefined\<close>.\<close>

definition faceAt :: "CrewFace list \<Rightarrow> nat option \<Rightarrow> CrewFace \<Rightarrow> CrewFace" where
  "faceAt faces idx fallback =
     (case idx of
        None \<Rightarrow> fallback
      | Some i \<Rightarrow> if i < length faces then faces ! i else fallback)"

definition initialCrew :: "CrewDie list" where
  "initialCrew = map (\<lambda>i. \<lparr>die_id = int i, face = FTactical, location = Pool\<rparr>) [0..<6]"

definition makeInitialState :: GameState where
  "makeInitialState =
     \<lparr>status = Idle, phase = Rolling, difficulty = Normal,
      hull = 8, maxHull = 8, shields = 4, maxShields = 4,
      crew = initialCrew,
      activeThreats = [], deck = [], discard = [],
      threatDieFace = None, selectedDieId = None, tacticalDice = [], log = [],
      lossReason = None, turnNumber = 0, elapsedSeconds = 0, drawnCard = None,
      nebulaActive = False, commsOfflineActive = False,
      setupDrawsRemaining = 0, usedStationActions = []\<rparr>"

text \<open>
  \<^verbatim>\<open>applyRevealEffect\<close> returns a \<^verbatim>\<open>Partial<GameState>\<close>: an object holding only
  the fields it changes, which the caller spreads over the state.
\<close>

record RevealEffects =
  re_hull :: "int option"
  re_shields :: "int option"
  re_crew :: "CrewDie list option"
  re_activeThreats :: "ActiveThreat list option"
  re_discard :: "ThreatCard list option"
  re_log :: "string list option"

definition noRevealEffects :: RevealEffects where
  "noRevealEffects = \<lparr>re_hull = None, re_shields = None, re_crew = None,
     re_activeThreats = None, re_discard = None, re_log = None\<rparr>"

definition spreadRevealEffects :: "GameState \<Rightarrow> RevealEffects \<Rightarrow> GameState" where
  "spreadRevealEffects state re =
     state\<lparr>hull := (case re_hull re of None \<Rightarrow> hull state | Some v \<Rightarrow> v),
           shields := (case re_shields re of None \<Rightarrow> shields state | Some v \<Rightarrow> v),
           crew := (case re_crew re of None \<Rightarrow> crew state | Some v \<Rightarrow> v),
           activeThreats :=
             (case re_activeThreats re of None \<Rightarrow> activeThreats state | Some v \<Rightarrow> v),
           discard := (case re_discard re of None \<Rightarrow> discard state | Some v \<Rightarrow> v),
           log := (case re_log re of None \<Rightarrow> log state | Some v \<Rightarrow> v)\<rparr>"

definition applyRevealEffect :: "World \<Rightarrow> GameState \<Rightarrow> ThreatCard \<Rightarrow> RevealEffects \<times> World" where
  "applyRevealEffect w state c =
     (if \<not> immediateOnReveal c then (noRevealEffects, w)
      else if card_id c = ''solar-winds-flagship'' then
        (let totalDmg = 5;
             absorbed = min (shields state) totalDmg;
             shields1 = shields state - absorbed;
             hull1 = max 0 (hull state - (totalDmg - absorbed));
             log1 = log state @ [''Solar Winds Flagship fires! '' @ show_int totalDmg
                      @ '' hull damage dealt. Card discarded.'']
         in (noRevealEffects\<lparr>re_hull := Some hull1, re_shields := Some shields1,
               re_log := Some log1, re_discard := Some (discard state @ [c])\<rparr>, w))
      else if startsWith (card_id c) ''distracted'' then
        (case createActiveThreat w c of
           (newThreat, w') \<Rightarrow>
             (let poolDie = find (\<lambda>d. location d = Pool) (crew state);
                  threats = activeThreats state @ [newThreat]
              in case poolDie of
                   Some pd \<Rightarrow>
                     (noRevealEffects\<lparr>
                        re_crew := Some (map (\<lambda>d. if die_id d = die_id pd
                                          then d\<lparr>location := OnThreat (threat_id newThreat)\<rparr>
                                          else d) (crew state)),
                        re_activeThreats := Some threats,
                        re_log := Some (log state @ [card_name c @ '': '' @ faceName (face pd)
                                          @ '' crew member is distracted!''])\<rparr>, w')
                 | None \<Rightarrow>
                     (noRevealEffects\<lparr>
                        re_crew := Some (crew state),
                        re_activeThreats := Some threats,
                        re_log := Some (log state @ [card_name c
                                          @ '': no crew available to distract.''])\<rparr>, w')))
      else (noRevealEffects, w))"

definition drawAndProcessCard :: "World \<Rightarrow> GameState \<Rightarrow> GameState \<times> World" where
  "drawAndProcessCard w state =
     (case drawCard (deck state) of
        None \<Rightarrow> (state, w)
      | Some (c, remainingDeck) \<Rightarrow>
          (let log0 = log state @ [''Threat card drawn: '' @ card_name c @ ''.''] in
           if kind c = Filler then
             (state\<lparr>deck := remainingDeck,
                    discard := discard state @ [c],
                    log := log0 @ [card_name c @ '' '' @ em_dash @ '' nothing happens.''],
                    drawnCard := Some c\<rparr>, w)
           else
             (case applyRevealEffect w (state\<lparr>deck := remainingDeck, log := log0\<rparr>) c of
                (revealEffects, w1) \<Rightarrow>
                  (case (if \<not> immediateOnReveal c then
                           (case createActiveThreat w1 c of
                              (newThreat, w2) \<Rightarrow>
                                (activeThreats state @ [newThreat], discard state, w2))
                         else if card_id c = ''solar-winds-flagship'' then
                           (activeThreats state,
                            (case re_discard revealEffects of
                               None \<Rightarrow> discard state | Some v \<Rightarrow> v), w1)
                         else if startsWith (card_id c) ''distracted'' then
                           ((case re_activeThreats revealEffects of
                               None \<Rightarrow> activeThreats state | Some v \<Rightarrow> v),
                            discard state, w1)
                         else (activeThreats state, discard state, w1)) of
                     (activeThreats1, discard1, w3) \<Rightarrow>
                       ((spreadRevealEffects state revealEffects)\<lparr>
                           deck := remainingDeck,
                           activeThreats := activeThreats1,
                           discard := (if immediateOnReveal c then discard1 else discard state),
                           log := (case re_log revealEffects of None \<Rightarrow> log0 | Some v \<Rightarrow> v),
                           drawnCard := Some c\<rparr>, w3)))))"

text \<open>
  \<^verbatim>\<open>processResolvedThreats\<close> walks the threat list of the state it was given and
  accumulates in \<^verbatim>\<open>currentState\<close>.
\<close>

definition processResolvedStep :: "ActiveThreat \<Rightarrow> GameState \<Rightarrow> GameState" where
  "processResolvedStep threat currentState =
     (if kind (card threat) \<noteq> Internal then currentState
      else if isThreatResolved threat (crew currentState) then
        (case resolveThreat (activeThreats currentState) (crew currentState) (threat_id threat) of
           (threats, crew1) \<Rightarrow>
             currentState\<lparr>activeThreats := threats, crew := crew1,
               discard := discard currentState @ [card threat],
               log := log currentState @ [card_name (card threat) @ '' resolved!'']\<rparr>)
      else currentState)"

definition processResolvedThreats :: "GameState \<Rightarrow> GameState" where
  "processResolvedThreats state = fold processResolvedStep (activeThreats state) state"

definition withPassiveFlags :: "GameState \<Rightarrow> GameState" where
  "withPassiveFlags state =
     state\<lparr>nebulaActive := isNebulaActive (activeThreats state),
           commsOfflineActive := isCommsOfflineActive (activeThreats state)\<rparr>"

definition withWinLossCheck :: "GameState \<Rightarrow> GameState" where
  "withWinLossCheck state =
     (if hull state \<le> 0 then state\<lparr>status := Lost, lossReason := Some LossHull\<rparr>
      else if status state = Playing \<and> checkCrewLoss (crew state) then
        state\<lparr>status := Lost, lossReason := Some LossCrew\<rparr>
      else if status state = Playing \<and> checkWin (deck state) (activeThreats state) then
        state\<lparr>status := Won\<rparr>
      else state)"

definition startNewGame :: "World \<Rightarrow> Difficulty \<Rightarrow> GameState \<times> World" where
  "startNewGame w dif =
     (case buildDeck w dif of
        (deck0, w1) \<Rightarrow>
          (let state0 = makeInitialState\<lparr>status := Playing, phase := Rolling,
                          difficulty := dif, deck := deck0, crew := initialCrew,
                          log := [''Game started. Drawing 2 initial threat cards...''],
                          turnNumber := 1\<rparr>
           in case drawAndProcessCard w1 (state0\<lparr>setupDrawsRemaining := 2\<rparr>) of
                (state1, w2) \<Rightarrow>
                  (withWinLossCheck (withPassiveFlags (state1\<lparr>phase := Drawing\<rparr>)), w2)))"

text \<open>
  The loops \<^verbatim>\<open>for (let i = 0; i < extraDraws; i++)\<close> of the roll and of the
  commander's reroll; the first also logs the number of the draw.
\<close>

definition scannerDrawStep :: "nat \<Rightarrow> nat \<Rightarrow> GameState \<times> World \<Rightarrow> GameState \<times> World" where
  "scannerDrawStep extraDraws i sw =
     (case sw of (currentState, w) \<Rightarrow>
        (case drawAndProcessCard w currentState of
           (drawn, w') \<Rightarrow>
             (drawn\<lparr>log := log drawn @ [''(Scanner draw '' @ show_nat (i + 1) @ ''/''
                                           @ show_nat extraDraws @ '')'']\<rparr>, w')))"

definition rerollDrawStep :: "nat \<Rightarrow> GameState \<times> World \<Rightarrow> GameState \<times> World" where
  "rerollDrawStep i sw = (case sw of (currentState, w) \<Rightarrow> drawAndProcessCard w currentState)"

fun gameReducer :: "World \<Rightarrow> GameState \<Rightarrow> GameAction \<Rightarrow> GameState \<times> World" where
  "gameReducer w state (TEST_LOAD_STATE loaded) = (loaded, w)"
| "gameReducer w state (NEW_GAME dif) = startNewGame w dif"
| "gameReducer w state TICK =
     (if status state \<noteq> Playing then (state, w)
      else (state\<lparr>elapsedSeconds := elapsedSeconds state + 1\<rparr>, w))"
| "gameReducer w state START_ROLL =
     (if status state \<noteq> Playing \<or> phase state \<noteq> Rolling then (state, w)
      else (state\<lparr>log := [''Turn '' @ show_int (turnNumber state)
                             @ '': Rolling crew dice...'']\<rparr>, w))"
| "gameReducer w state (ROLL_COMPLETE faces) =
     (if status state \<noteq> Playing \<or> phase state \<noteq> Rolling then (state, w)
      else
        (let poolDice = filter (\<lambda>d. location d = Pool) (crew state);
             crew1 = map (\<lambda>d. case findIndex (\<lambda>p. die_id p = die_id d) poolDice of
                                 None \<Rightarrow> d
                               | Some poolIndex \<Rightarrow>
                                   d\<lparr>face := faceAt faces (Some poolIndex) (face d)\<rparr>)
                       (crew state);
             newThreatDice = map die_id
                               (filter (\<lambda>d. location d = Pool \<and> face d = FThreat) crew1);
             crew2 = map (\<lambda>d. if location d = Pool \<and> face d = FThreat
                               then d\<lparr>location := AtStation Scanners\<rparr> else d) crew1;
             log1 = (if length newThreatDice > 0
                     then log state @ [show_nat (length newThreatDice)
                            @ '' die/dice locked in Scanners (Threat Detected).'']
                     else log state)
         in case processScanners crew2 of
              (crewAfterScanners, extraDraws) \<Rightarrow>
                (case fold (scannerDrawStep extraDraws) [0..<extraDraws]
                        (state\<lparr>crew := crewAfterScanners, log := log1\<rparr>, w) of
                   (currentState, w') \<Rightarrow>
                     (withWinLossCheck
                        (withPassiveFlags (currentState\<lparr>phase := Assigning, drawnCard := None\<rparr>)),
                      w'))))"
| "gameReducer w state (SELECT_DIE dieId) =
     (if status state \<noteq> Playing \<or> phase state \<noteq> Assigning then (state, w)
      else (state\<lparr>selectedDieId := dieId\<rparr>, w))"
| "gameReducer w state (ASSIGN_TO_STATION dieId stationId) =
     (if status state \<noteq> Playing \<or> phase state \<noteq> Assigning then (state, w)
      else
        (case find (\<lambda>d. die_id d = dieId) (crew state) of
           None \<Rightarrow> (state, w)
         | Some die \<Rightarrow>
             if location die \<noteq> Pool then (state, w)
             else
               (let crew1 = map (\<lambda>d. if die_id d = dieId
                                      then d\<lparr>location := AtStation stationId\<rparr> else d)
                              (crew state);
                    tacticalDice1 = (if stationId = Tactical then tacticalDice state @ [dieId]
                                     else tacticalDice state)
                in (withPassiveFlags
                      (state\<lparr>crew := crew1, tacticalDice := tacticalDice1,
                             selectedDieId := None,
                             log := log state @ [''Assigned '' @ faceName (face die)
                                      @ '' die to '' @ stationName stationId @ ''.'']\<rparr>),
                    w))))"
| "gameReducer w state (ASSIGN_TO_THREAT dieId threatId) =
     (if status state \<noteq> Playing \<or> phase state \<noteq> Assigning then (state, w)
      else
        (case (find (\<lambda>d. die_id d = dieId) (crew state),
               find (\<lambda>t. threat_id t = threatId) (activeThreats state)) of
           (Some die, Some threat) \<Rightarrow>
             if location die \<noteq> Pool then (state, w)
             else if kind (card threat) \<noteq> Internal then (state, w)
             else
               (case resolution (card threat) of
                  None \<Rightarrow> (state, w)
                | Some r \<Rightarrow>
                    if face die \<noteq> req_face r then (state, w)
                    else
                      (let crew1 = map (\<lambda>d. if die_id d = dieId
                                             then d\<lparr>location := OnThreat threatId\<rparr> else d)
                                     (crew state);
                           activeThreats1 =
                             map (\<lambda>t. if threat_id t = threatId
                                       then t\<lparr>awayMission := awayMission t @ [dieId]\<rparr> else t)
                               (activeThreats state);
                           log1 = log state @ [faceName (face die) @ '' die sent to ''
                                    @ card_name (card threat) @ '' (away mission).''];
                           newState = withPassiveFlags
                                        (state\<lparr>crew := crew1, activeThreats := activeThreats1,
                                               selectedDieId := None, log := log1\<rparr>)
                       in (withPassiveFlags (processResolvedThreats newState), w)))
         | _ \<Rightarrow> (state, w)))"
| "gameReducer w state USE_ENGINEERING =
     (if status state \<noteq> Playing \<or> phase state \<noteq> Assigning then (state, w)
      else
        (let engCount = length (filter (\<lambda>d. location d = AtStation Engineering) (crew state))
         in if engCount = 0 then (state, w)
            else
              (let newHull = resolveEngineering (hull state) (maxHull state) (int engCount);
                   repaired = newHull - hull state
               in (state\<lparr>hull := newHull,
                         log := log state @ [''Engineering repaired '' @ show_int repaired
                                  @ '' hull. ('' @ show_int newHull @ ''/''
                                  @ show_int (maxHull state) @ '')'']\<rparr>, w))))"
| "gameReducer w state USE_MEDICAL =
     (if status state \<noteq> Playing \<or> phase state \<noteq> Assigning then (state, w)
      else if ''USE_MEDICAL'' \<in> set (usedStationActions state) then (state, w)
      else
        (let medCount = length (filter (\<lambda>d. location d = AtStation Medical) (crew state))
         in if medCount = 0 then (state, w)
            else
              (let infirmaryCount =
                     length (filter (\<lambda>d. location d = AtStation Infirmary) (crew state));
                   crew1 = resolveMedical (crew state)
               in (state\<lparr>crew := crew1,
                         usedStationActions := usedStationActions state @ [''USE_MEDICAL''],
                         log := log state @ [''Medical: '' @ show_nat infirmaryCount
                                  @ '' crew recovered from Infirmary.'']\<rparr>, w))))"
| "gameReducer w state USE_MEDICAL_SCANNERS =
     (if status state \<noteq> Playing \<or> phase state \<noteq> Assigning then (state, w)
      else
        (let medCount = length (filter (\<lambda>d. location d = AtStation Medical) (crew state))
         in if medCount = 0 then (state, w)
            else
              (let crew1 = releaseFromScanners (crew state)
               in (state\<lparr>crew := crew1,
                         log := log state @ [''Medical: 1 crew released from Scanners.'']\<rparr>,
                   w))))"
| "gameReducer w state (USE_TACTICAL targetThreatId) =
     (if status state \<noteq> Playing \<or> phase state \<noteq> Assigning then (state, w)
      else
        (let tactCount = length (tacticalDice state)
         in if tactCount = 0 then (state, w)
            else
              (case find (\<lambda>t. threat_id t = targetThreatId) (activeThreats state) of
                 None \<Rightarrow> (state, w)
               | Some target \<Rightarrow>
                   if \<not> canTargetThreat target (activeThreats state) then (state, w)
                   else
                     (let damage = calculateTacticalDamage (int tactCount);
                          timeWarp = isTimeWarpActive (activeThreats state);
                          activeThreats1 = applyTacticalDamage (activeThreats state)
                                             targetThreatId damage timeWarp;
                          destroyed =
                            (case find (\<lambda>t. threat_id t = targetThreatId) activeThreats1 of
                               None \<Rightarrow> False | Some t \<Rightarrow> isDestroyed t);
                          log1 = log state @ [''Tactical: '' @ show_nat tactCount @ '' ''
                                   @ (if tactCount = 1 then ''die'' else ''dice'')
                                   @ '' fire at '' @ card_name (card target) @ '' for ''
                                   @ show_int damage @ '' damage.''
                                   @ (if destroyed then '' Target destroyed!'' else '''')];
                          discard1 = discard state
                                     @ map card
                                         (filter (\<lambda>t. threat_id t = targetThreatId
                                                      \<and> isDestroyed t \<and> \<not> isBarrier (card t))
                                            activeThreats1);
                          finalThreats = filter (\<lambda>t. \<not> isDestroyed t \<or> isBarrier (card t))
                                           activeThreats1
                      in (withWinLossCheck
                            (withPassiveFlags
                               (state\<lparr>activeThreats := finalThreats, discard := discard1,
                                      tacticalDice := [], log := log1\<rparr>)), w)))))"
| "gameReducer w state USE_SCIENCE_SHIELDS =
     (if status state \<noteq> Playing \<or> phase state \<noteq> Assigning then (state, w)
      else if ''USE_SCIENCE'' \<in> set (usedStationActions state) then (state, w)
      else
        (let sciCount = length (filter (\<lambda>d. location d = AtStation Science) (crew state))
         in if sciCount = 0 then (state, w)
            else if nebulaActive state then
              (state\<lparr>log := log state @ [''Science: shields cannot be recharged '' @ em_dash
                                @ '' Nebula is active!'']\<rparr>, w)
            else
              (let shields1 = resolveScience (maxShields state)
               in (state\<lparr>shields := shields1,
                         usedStationActions := usedStationActions state @ [''USE_SCIENCE''],
                         log := log state @ [''Science: shields recharged to ''
                                  @ show_int shields1 @ ''/'' @ show_int (maxShields state)
                                  @ ''.'']\<rparr>, w))))"
| "gameReducer w state (USE_SCIENCE_STASIS targetThreatId) =
     (if status state \<noteq> Playing \<or> phase state \<noteq> Assigning then (state, w)
      else if ''USE_SCIENCE'' \<in> set (usedStationActions state) then (state, w)
      else
        (let sciCount = length (filter (\<lambda>d. location d = AtStation Science) (crew state))
         in if sciCount = 0 then (state, w)
            else
              (case find (\<lambda>t. threat_id t = targetThreatId) (activeThreats state) of
                 None \<Rightarrow> (state, w)
               | Some target \<Rightarrow>
                   (let activeThreats1 = placeStasisToken (activeThreats state) targetThreatId
                    in (state\<lparr>activeThreats := activeThreats1,
                              usedStationActions := usedStationActions state @ [''USE_SCIENCE''],
                              log := log state @ [''Science: stasis token placed on ''
                                       @ card_name (card target) @ ''.'']\<rparr>, w)))))"
| "gameReducer w state USE_COMMANDER_REROLL =
     (if status state \<noteq> Playing \<or> phase state \<noteq> Assigning then (state, w)
      else if commsOfflineActive state then (state, w)
      else if ''USE_COMMANDER'' \<in> set (usedStationActions state) then (state, w)
      else
        (let cmdCount = length (filter (\<lambda>d. location d = AtStation Commander) (crew state))
         in if cmdCount = 0 then (state, w)
            else
              (let rerollCount = commanderRerollCount (crew state)
               in case rollAllCrewDice w rerollCount of
                    (newFaces, w1) \<Rightarrow>
                      (let poolDice = filter (\<lambda>d. location d = Pool) (crew state);
                           rolled = (\<lambda>d. faceAt newFaces
                                            (findIndex (\<lambda>p. die_id p = die_id d) poolDice)
                                            (face d));
                           newThreatDice =
                             map die_id (filter (\<lambda>d. location d = Pool \<and> rolled d = FThreat)
                                           (crew state));
                           crew1 = map (\<lambda>d. if location d \<noteq> Pool then d
                                             else if rolled d = FThreat then
                                               d\<lparr>face := rolled d,
                                                 location := AtStation Scanners\<rparr>
                                             else d\<lparr>face := rolled d\<rparr>) (crew state);
                           log1 = log state
                                  @ [''Commander: re-rolled '' @ show_nat rerollCount @ '' dice.'']
                                  @ (if length newThreatDice > 0
                                     then [show_nat (length newThreatDice)
                                             @ '' new Threat Detected die/dice locked in Scanners.'']
                                     else [])
                       in case processScanners crew1 of
                            (crewAfterScanners, extraDraws) \<Rightarrow>
                              (case fold rerollDrawStep [0..<extraDraws]
                                      (state\<lparr>crew := crewAfterScanners, log := log1,
                                             usedStationActions :=
                                               usedStationActions state @ [''USE_COMMANDER'']\<rparr>,
                                       w1) of
                                 (currentState, w2) \<Rightarrow>
                                   (withPassiveFlags (withWinLossCheck currentState), w2))))))"
| "gameReducer w state (USE_COMMANDER_CHANGE targetDieId newFace) =
     (if status state \<noteq> Playing \<or> phase state \<noteq> Assigning then (state, w)
      else if commsOfflineActive state then (state, w)
      else if ''USE_COMMANDER'' \<in> set (usedStationActions state) then (state, w)
      else
        (let cmdCount = length (filter (\<lambda>d. location d = AtStation Commander) (crew state))
         in if cmdCount = 0 then (state, w)
            else
              (let crew1 = commanderChangeDie (crew state) targetDieId newFace;
                   crew2 = (if newFace = FThreat
                            then map (\<lambda>d. if die_id d = targetDieId \<and> location d = Pool
                                           then d\<lparr>location := AtStation Scanners\<rparr> else d) crew1
                            else crew1)
               in (withPassiveFlags
                     (state\<lparr>crew := crew2,
                            usedStationActions := usedStationActions state @ [''USE_COMMANDER''],
                            log := log state @ [''Commander: changed die to ''
                                     @ faceName newFace @ ''.'']\<rparr>), w))))"
| "gameReducer w state END_ASSIGN_PHASE =
     (if status state \<noteq> Playing \<or> phase state \<noteq> Assigning then (state, w)
      else
        (let engCount = length (filter (\<lambda>d. location d = AtStation Engineering) (crew state));
             stateAfterEng =
               (if engCount > 0 then
                  (let newHull = resolveEngineering (hull state) (maxHull state) (int engCount);
                       repaired = newHull - hull state
                   in state\<lparr>hull := newHull,
                            log := (if repaired > 0
                                    then log state @ [''Engineering auto-resolved: +''
                                           @ show_int repaired @ '' hull.'']
                                    else log state)\<rparr>)
                else state)
         in case drawAndProcessCard w stateAfterEng of
              (stateAfterDraw, w') \<Rightarrow>
                (withWinLossCheck
                   (withPassiveFlags (stateAfterDraw\<lparr>phase := Drawing, tacticalDice := []\<rparr>)),
                 w')))"
| "gameReducer w state ACKNOWLEDGE_DRAW =
     (if status state \<noteq> Playing \<or> phase state \<noteq> Drawing then (state, w)
      else if setupDrawsRemaining state \<ge> 2 then
        (case drawAndProcessCard w (state\<lparr>drawnCard := None, setupDrawsRemaining := 1\<rparr>) of
           (next, w') \<Rightarrow> (withWinLossCheck (withPassiveFlags (next\<lparr>phase := Drawing\<rparr>)), w'))
      else if setupDrawsRemaining state = 1 then
        (withPassiveFlags
           (state\<lparr>phase := Rolling, drawnCard := None, setupDrawsRemaining := 0\<rparr>), w)
      else (state\<lparr>phase := Activating, drawnCard := None\<rparr>, w))"
| "gameReducer w state START_THREAT_ROLL =
     (if status state \<noteq> Playing \<or> phase state \<noteq> Activating then (state, w)
      else (state\<lparr>threatDieFace := None\<rparr>, w))"
| "gameReducer w state (THREAT_ROLL_COMPLETE rolled) =
     (if status state \<noteq> Playing \<or> phase state \<noteq> Activating then (state, w)
      else
        (let log0 = log state @ [''Threat Die rolled: '' @ symbolName rolled @ ''.''];
             result = activateThreats state rolled;
             (deck1, w1) =
               (if list_ex (\<lambda>l. str_includes l ''Time Warp'') (act_log result) then
                  (let toReshuffle = drop (length (discard state) - 3) (discard state)
                   in if length toReshuffle > 0
                      then shuffle w (deck state @ toReshuffle)
                      else (deck state, w))
                else (deck state, w));
             stateAfterActivation =
               withPassiveFlags
                 (state\<lparr>hull := act_hull result, shields := act_shields result,
                        activeThreats := act_threats result, crew := act_crew result,
                        deck := deck1, log := log0 @ act_log result,
                        threatDieFace := Some rolled\<rparr>);
             (stateAfterDraw, w2) =
               (if act_extraDraw result then drawAndProcessCard w1 stateAfterActivation
                else (stateAfterActivation, w1))
         in (withWinLossCheck stateAfterDraw, w2)))"
| "gameReducer w state ACKNOWLEDGE_ACTIVATE =
     (if status state \<noteq> Playing \<or> phase state \<noteq> Activating then (state, w)
      else (state\<lparr>phase := Gathering\<rparr>, w))"
| "gameReducer w state ACKNOWLEDGE_GATHER =
     (if status state \<noteq> Playing \<or> phase state \<noteq> Gathering then (state, w)
      else
        (let crew1 = gatherCrew (crew state) (activeThreats state);
             gathered = length (filter (\<lambda>d. location d = Pool) crew1);
             log1 = log state @ [''Crew gathered. '' @ show_nat gathered
                      @ '' crew ready for next turn.''];
             nextState = withPassiveFlags
                           (state\<lparr>crew := crew1, log := log1, phase := Rolling,
                                  turnNumber := turnNumber state + 1, tacticalDice := [],
                                  drawnCard := None, selectedDieId := None,
                                  usedStationActions := []\<rparr>)
         in (withWinLossCheck nextState, w)))"
| "gameReducer w state UNKNOWN_ACTION = (state, w)"

text \<open>
  The phase an action belongs to, as \<^verbatim>\<open>actions.ts\<close> groups the actions under its
  comments (roll phase, assign phase, drawing phase, activating phase, gathering
  phase); \<open>NEW_GAME\<close>, \<open>TICK\<close> and the state load belong to none.
\<close>

fun actionPhase :: "GameAction \<Rightarrow> TurnPhase option" where
  "actionPhase START_ROLL = Some Rolling"
| "actionPhase (ROLL_COMPLETE _) = Some Rolling"
| "actionPhase (SELECT_DIE _) = Some Assigning"
| "actionPhase (ASSIGN_TO_STATION _ _) = Some Assigning"
| "actionPhase (ASSIGN_TO_THREAT _ _) = Some Assigning"
| "actionPhase USE_ENGINEERING = Some Assigning"
| "actionPhase USE_MEDICAL = Some Assigning"
| "actionPhase USE_MEDICAL_SCANNERS = Some Assigning"
| "actionPhase (USE_TACTICAL _) = Some Assigning"
| "actionPhase USE_SCIENCE_SHIELDS = Some Assigning"
| "actionPhase (USE_SCIENCE_STASIS _) = Some Assigning"
| "actionPhase USE_COMMANDER_REROLL = Some Assigning"
| "actionPhase (USE_COMMANDER_CHANGE _ _) = Some Assigning"
| "actionPhase END_ASSIGN_PHASE = Some Assigning"
| "actionPhase ACKNOWLEDGE_DRAW = Some Drawing"
| "actionPhase START_THREAT_ROLL = Some Activating"
| "actionPhase (THREAT_ROLL_COMPLETE _) = Some Activating"
| "actionPhase ACKNOWLEDGE_ACTIVATE = Some Activating"
| "actionPhase ACKNOWLEDGE_GATHER = Some Gathering"
| "actionPhase _ = None"

section \<open>Verified properties\<close>

subsection \<open>Fields that the flag and win/loss checks leave alone\<close>

lemma withWinLossCheck_fields [simp]:
  "phase (withWinLossCheck s) = phase s"
  "deck (withWinLossCheck s) = deck s"
  "discard (withWinLossCheck s) = discard s"
  "drawnCard (withWinLossCheck s) = drawnCard s"
  "activeThreats (withWinLossCheck s) = activeThreats s"
  "crew (withWinLossCheck s) = crew s"
  "hull (withWinLossCheck s) = hull s"
  "shields (withWinLossCheck s) = shields s"
  by (simp_all add: withWinLossCheck_def)

lemma withPassiveFlags_fields [simp]:
  "phase (withPassiveFlags s) = phase s"
  "status (withPassiveFlags s) = status s"
  "deck (withPassiveFlags s) = deck s"
  "discard (withPassiveFlags s) = discard s"
  "drawnCard (withPassiveFlags s) = drawnCard s"
  "activeThreats (withPassiveFlags s) = activeThreats s"
  "crew (withPassiveFlags s) = crew s"
  "hull (withPassiveFlags s) = hull s"
  "shields (withPassiveFlags s) = shields s"
  by (simp_all add: withPassiveFlags_def)

subsection \<open>Ship damage\<close>

lemma applyDamage_hull_shields:
  "dmg_hull (applyDamage h s hD sD) =
     max 0 (h - (if sD > 0 then sD - min s sD else 0)
       - (if hD > 0 then hD - min (if sD > 0 then s - min s sD else s) hD else 0))"
  "dmg_shields (applyDamage h s hD sD) =
     max 0 ((if sD > 0 then s - min s sD else s)
       - (if hD > 0 then min (if sD > 0 then s - min s sD else s) hD else 0))"
  by (simp_all add: applyDamage_def Let_def split: prod.splits)

text \<open>
  Claim C2, as amended. For non-negative hull, shields, hull damage and shield damage,
  \<open>applyDamage\<close> returns a non-negative hull and non-negative shields, and what the
  ship loses (shields lost plus hull lost) is the damage dealt capped at what the ship
  had: \<open>min (hullDmg + shieldDmg) (hull + shields)\<close>. So the loss equals the damage
  dealt exactly when the damage does not exceed hull plus shields; beyond that the hull
  is floored at zero and the rest of the damage is dropped.
\<close>

theorem applyDamage_floor_and_taken:
  assumes "0 \<le> h" and "0 \<le> s" and "0 \<le> hD" and "0 \<le> sD"
  shows "0 \<le> dmg_hull (applyDamage h s hD sD) \<and> 0 \<le> dmg_shields (applyDamage h s hD sD)
     \<and> (s - dmg_shields (applyDamage h s hD sD)) + (h - dmg_hull (applyDamage h s hD sD))
         = min (hD + sD) (h + s)"
  using assms unfolding applyDamage_hull_shields by auto

theorem applyDamage_floor_and_taken_witness:
  "0 \<le> dmg_hull (applyDamage 8 1 2 3) \<and> 0 \<le> dmg_shields (applyDamage 8 1 2 3)
     \<and> (1 - dmg_shields (applyDamage 8 1 2 3)) + (8 - dmg_hull (applyDamage 8 1 2 3)) = 5"
  using applyDamage_floor_and_taken [of 8 1 2 3] by simp

text \<open>
  The claim as it was stated (loss equal to the damage dealt, for all non-negative
  inputs) fails where the hull is floored: the repository's own test
  \<^verbatim>\<open>applyDamage(2, 0, 10, 0)\<close> deals 10 and the ship loses 2.
\<close>

theorem applyDamage_conservation_counterexample:
  "\<not> ((0::int) \<le> 2 \<and> (0::int) \<le> 0 \<and> (0::int) \<le> 10 \<and> (0::int) \<le> 0 \<longrightarrow>
       0 \<le> dmg_hull (applyDamage 2 0 10 0) \<and> 0 \<le> dmg_shields (applyDamage 2 0 10 0)
       \<and> (0 - dmg_shields (applyDamage 2 0 10 0)) + (2 - dmg_hull (applyDamage 2 0 10 0))
           = 10 + 0)"
  unfolding applyDamage_hull_shields by simp

text \<open>
  Claim C3. On its domain (non-negative shields and damage amounts) \<open>applyDamage\<close>
  computes hull and shields in exactly the two stages of the specification: the shield
  damage is taken from the shields and its excess overflows to the hull, then the hull
  damage is absorbed by the remaining shields and only the remainder hits the hull, and
  both results are floored at zero.
\<close>

theorem applyDamage_two_stage:
  assumes "0 \<le> s" and "0 \<le> hD" and "0 \<le> sD"
  shows "(dmg_hull (applyDamage h s hD sD), dmg_shields (applyDamage h s hD sD))
     = spec_applyDamage h s hD sD"
  using assms unfolding applyDamage_hull_shields
  by (auto simp: spec_applyDamage_def spec_direct_shield_hit_def
      spec_absorbed_hull_hit_def Let_def)

theorem applyDamage_two_stage_witness:
  "(dmg_hull (applyDamage 8 4 2 1), dmg_shields (applyDamage 8 4 2 1)) = (8, 1)
   \<and> spec_applyDamage 8 4 2 1 = (8, 1)"
  using applyDamage_two_stage [of 4 2 1 8]
  by (simp add: spec_applyDamage_def spec_direct_shield_hit_def
      spec_absorbed_hull_hit_def Let_def)

subsection \<open>The deck\<close>

lemma shuffle_loop_set:
  "k < length arr \<Longrightarrow> set (fst (shuffle_loop w k arr)) = set arr"
proof (induction k arbitrary: w arr)
  case 0
  then show ?case by simp
next
  case (Suc k)
  let ?j = "rng w (rngPos w) mod (Suc k + 1)"
  let ?w = "w\<lparr>rngPos := Suc (rngPos w)\<rparr>"
  let ?arr = "arr[Suc k := arr ! ?j, ?j := arr ! Suc k]"
  have j: "?j < length arr"
    using Suc.prems
    by (metis Suc_eq_plus1 less_Suc_eq_le mod_less_divisor order_le_less_trans zero_less_Suc)
  have step: "shuffle_loop w (Suc k) arr = shuffle_loop ?w k ?arr"
    by (simp add: randomBelow_def Let_def)
  have "set (fst (shuffle_loop ?w k ?arr)) = set ?arr"
    using Suc.prems by (intro Suc.IH) simp
  also have "\<dots> = set arr"
    using Suc.prems j by simp
  finally show ?case unfolding step .
qed

lemma shuffle_set: "set (fst (shuffle w items)) = set items"
proof (cases items)
  case Nil
  then show ?thesis by (simp add: shuffle_def)
next
  case (Cons x xs)
  then have "length items - 1 < length items" by simp
  then show ?thesis unfolding shuffle_def by (rule shuffle_loop_set)
qed

lemma core_cards_not_boss: "c \<in> set CORE_CARDS \<Longrightarrow> \<not> isOuroboros c"
  unfolding CORE_CARDS_def
  by (auto simp: PANEL_EXPLOSION_def DISTRACTED_def DISTRACTED_2_def DISTRACTED_3_def
      FRIENDLY_FIRE_def BOOST_MORALE_def NEBULA_def TIME_WARP_def PANDEMIC_def
      SPORE_INFESTATION_def ROBOT_UPRISING_def COMMS_OFFLINE_def STRIKE_BOMBERS_def
      STRIKE_BOMBERS_2_def SCOUT_def SCOUT_2_def PIRATES_def SPACE_PIRATES_def
      ORBITAL_CANNON_def SOLAR_WINDS_FLAGSHIP_def HIJACKERS_def OUROBOROS_BARRIER_def)

lemma main_deck_not_boss:
  "c \<in> set (CORE_CARDS @ replicate n DON_T_PANIC) \<Longrightarrow> \<not> isOuroboros c"
  using core_cards_not_boss by (auto simp: DON_T_PANIC_def)

text \<open>
  Claim C4. For every difficulty (and every outcome of the random shuffle) the deck
  returned by \<open>buildDeck\<close> ends with the boss card Ouroboros, the boss card occurs at
  no earlier position, and it is the only card of the deck that carries the boss flag.
\<close>

theorem buildDeck_boss_last_only:
  "last (fst (buildDeck w dif)) = OUROBOROS
   \<and> OUROBOROS \<notin> set (butlast (fst (buildDeck w dif)))
   \<and> length (filter isOuroboros (fst (buildDeck w dif))) = 1"
proof -
  let ?main = "CORE_CARDS @ replicate (DONT_PANIC_COUNTS dif) DON_T_PANIC"
  obtain mainDeck w' where sh: "shuffle w ?main = (mainDeck, w')"
    by (cases "shuffle w ?main")
  have bd: "fst (buildDeck w dif) = mainDeck @ [OUROBOROS]"
    by (simp add: buildDeck_def Let_def sh)
  have "set mainDeck = set ?main"
    using shuffle_set [of w ?main] sh by simp
  then have nb: "\<forall>c \<in> set mainDeck. \<not> isOuroboros c"
    using main_deck_not_boss by blast
  have b: "isOuroboros OUROBOROS" by (simp add: OUROBOROS_def)
  from nb b have "OUROBOROS \<notin> set mainDeck" by blast
  moreover from nb have "filter isOuroboros mainDeck = []" by (simp add: filter_empty_conv)
  ultimately show ?thesis using b by (simp add: bd)
qed

theorem buildDeck_boss_last_only_witness:
  "last (fst (buildDeck \<lparr>instanceCounter = 0, rng = (\<lambda>n. 7 * n + 3), rngPos = 0\<rparr> Normal))
     = OUROBOROS
   \<and> OUROBOROS \<notin>
       set (butlast (fst (buildDeck \<lparr>instanceCounter = 0, rng = (\<lambda>n. 7 * n + 3), rngPos = 0\<rparr> Normal)))
   \<and> length (filter isOuroboros
       (fst (buildDeck \<lparr>instanceCounter = 0, rng = (\<lambda>n. 7 * n + 3), rngPos = 0\<rparr> Normal))) = 1"
  by (rule buildDeck_boss_last_only)

subsection \<open>The win check\<close>

text \<open>
  Claim C5. \<open>checkWin\<close> is true if and only if the deck is empty and no active threat
  is a non-destroyed external threat, boss (the card flagged \<open>isOuroboros\<close>) or
  boss barrier (the card flagged \<open>isBarrier\<close>); internal threats, and destroyed
  threats of any kind, do not prevent the win.
\<close>

theorem checkWin_iff:
  "checkWin dk ts \<longleftrightarrow>
     dk = [] \<and>
     (\<forall>t \<in> set ts. \<not> ((kind (card t) = External \<or> isOuroboros (card t) \<or> isBarrier (card t))
                        \<and> \<not> isDestroyed t))"
  by (auto simp: checkWin_def Let_def filter_empty_conv)

theorem checkWin_iff_witness:
  "checkWin ([] :: ThreatCard list)
     [\<lparr>threat_id = ''ouroboros-barrier-1'', card = OUROBOROS_BARRIER, health = 0,
       stasisTokens = 0, awayMission = [], isDestroyed = True\<rparr>,
      \<lparr>threat_id = ''nebula-2'', card = NEBULA, health = 0,
       stasisTokens = 0, awayMission = [], isDestroyed = False\<rparr>]
   \<and> \<not> checkWin ([] :: ThreatCard list)
     [\<lparr>threat_id = ''pirates-1'', card = PIRATES, health = 4,
       stasisTokens = 0, awayMission = [], isDestroyed = False\<rparr>]"
  using checkWin_iff [of "[] :: ThreatCard list"
      "[\<lparr>threat_id = ''ouroboros-barrier-1'', card = OUROBOROS_BARRIER, health = 0,
         stasisTokens = 0, awayMission = [], isDestroyed = True\<rparr>,
        \<lparr>threat_id = ''nebula-2'', card = NEBULA, health = 0,
         stasisTokens = 0, awayMission = [], isDestroyed = False\<rparr>]"]
    checkWin_iff [of "[] :: ThreatCard list"
      "[\<lparr>threat_id = ''pirates-1'', card = PIRATES, health = 4,
         stasisTokens = 0, awayMission = [], isDestroyed = False\<rparr>]"]
  by (simp add: NEBULA_def PIRATES_def OUROBOROS_BARRIER_def)

subsection \<open>The activation pass\<close>

lemma find_map_same_pred:
  "(\<And>t. P (f t) = P t) \<Longrightarrow> find P (map f ts) = map_option f (find P ts)"
  by (induction ts) auto

lemma find_filter_other_id:
  "tid \<noteq> bid \<Longrightarrow>
   find (\<lambda>u. threat_id u = bid) (filter (\<lambda>u. threat_id u \<noteq> tid) ts)
     = find (\<lambda>u. threat_id u = bid) ts"
  by (induction ts) auto

lemma find_distinct_key:
  "distinct (map f xs) \<Longrightarrow> x \<in> set xs \<Longrightarrow> find (\<lambda>y. f y = f x) xs = Some x"
  by (induction xs) (auto simp: image_iff)

lemma sendCrew_threats [simp]: "act_threats (sendCrew acc n) = act_threats acc"
  by (simp add: sendCrew_def split: prod.splits)

lemma dealDamage_threats [simp]: "act_threats (dealDamage acc a b) = act_threats acc"
  by (simp add: dealDamage_def Let_def)

lemma cardEffect_find_other:
  assumes "threat_id t \<noteq> bid"
  shows "find (\<lambda>u. threat_id u = bid) (act_threats (cardEffect t acc))
       = find (\<lambda>u. threat_id u = bid) (act_threats acc)"
  using assms
  by (simp add: cardEffect_def Let_def find_filter_other_id split: list.splits)

lemma activateOne_find_other:
  assumes "threat_id t \<noteq> bid"
  shows "find (\<lambda>u. threat_id u = bid) (act_threats (activateOne f t acc))
       = find (\<lambda>u. threat_id u = bid) (act_threats acc)"
proof -
  have m1: "find (\<lambda>u. threat_id u = bid)
          (map (\<lambda>u. if threat_id u = threat_id t
                    then u\<lparr>stasisTokens := stasisTokens u - 1\<rparr> else u) ts)
        = find (\<lambda>u. threat_id u = bid) ts" for ts :: "ActiveThreat list"
    using assms by (induction ts) auto
  have m2: "find (\<lambda>u. threat_id u = bid)
          (map (\<lambda>u. if threat_id u = threat_id t
                    then u\<lparr>health := maxHealth (card u), isDestroyed := False\<rparr> else u) ts)
        = find (\<lambda>u. threat_id u = bid) ts" for ts :: "ActiveThreat list"
    using assms by (induction ts) auto
  show ?thesis
    using assms
    by (simp add: activateOne_def Let_def m1 m2 cardEffect_find_other split: option.splits)
qed

lemma fold_activateOne_find_other:
  "bid \<notin> threat_id ` set ts \<Longrightarrow>
   find (\<lambda>u. threat_id u = bid) (act_threats (fold (activateOne f) ts acc))
     = find (\<lambda>u. threat_id u = bid) (act_threats acc)"
  by (induction ts arbitrary: acc) (auto simp: activateOne_find_other)

lemma activateOne_barrier:
  assumes "find (\<lambda>u. threat_id u = threat_id b) (act_threats acc) = Some b"
    and "kind (card b) = BossBarrier" and "isBarrier (card b)"
    and "activation (card b) = f" and "stasisTokens b \<le> 0"
  shows "activateOne f b acc = spec_barrier_activation b acc"
  using assms
  by (simp add: activateOne_def spec_barrier_activation_def dealDamage_def Let_def)

lemma spec_barrier_activation_find:
  assumes "find (\<lambda>u. threat_id u = threat_id b) (act_threats acc) = Some b"
  shows "find (\<lambda>u. threat_id u = threat_id b) (act_threats (spec_barrier_activation b acc))
       = Some (b\<lparr>health := maxHealth (card b), isDestroyed := False\<rparr>)"
proof -
  have h: "find (\<lambda>u. threat_id u = threat_id b)
          (map (\<lambda>t. if threat_id t = threat_id b
                    then t\<lparr>health := maxHealth (card t), isDestroyed := False\<rparr> else t) ts)
        = map_option (\<lambda>t. if threat_id t = threat_id b
                    then t\<lparr>health := maxHealth (card t), isDestroyed := False\<rparr> else t)
            (find (\<lambda>u. threat_id u = threat_id b) ts)" for ts :: "ActiveThreat list"
    by (rule find_map_same_pred) simp
  show ?thesis by (simp add: spec_barrier_activation_def h assms)
qed

text \<open>
  Claim C7. Let the activation pass run on a rolled symbol that matches a boss barrier
  \<open>b\<close> in play (instance ids being unique, as \<open>createActiveThreat\<close> makes them) whose
  health is 0, whose destroyed flag is set and which holds no stasis token. Then the
  pass, which visits the threats in the order \<open>pre\<close>, \<open>b\<close>, \<open>post\<close>, does at \<open>b\<close>
  exactly what the specification says: on the totals reached after \<open>pre\<close> the barrier
  is restored to its template's maximum health, its destroyed flag is cleared and 2
  hull damage is dealt through \<open>applyDamage\<close> in that same pass. At the end of the pass
  the barrier is still at full health and not destroyed.
\<close>

theorem barrier_regenerates_and_hits:
  assumes "b \<in> set (activeThreats s)"
    and "distinct (map threat_id (activeThreats s))"
    and "kind (card b) = BossBarrier" and "isBarrier (card b)"
    and "activation (card b) = rolled"
    and "health b = 0" and "isDestroyed b" and "stasisTokens b = 0"
  shows "\<exists>pre post.
      sort_key (\<lambda>t. if kind (card t) = Internal then (0::nat) else 1) (activeThreats s)
        = pre @ b # post
    \<and> activateThreats s rolled =
        fold (activateOne rolled) post
          (spec_barrier_activation b
            (fold (activateOne rolled) pre
               \<lparr>act_hull = hull s, act_shields = shields s,
                act_threats = activeThreats s, act_crew = crew s,
                act_log = [], act_extraDraw = False\<rparr>))
    \<and> find (\<lambda>t. threat_id t = threat_id b) (act_threats (activateThreats s rolled))
        = Some (b\<lparr>health := maxHealth (card b), isDestroyed := False\<rparr>)"
proof -
  let ?key = "\<lambda>t. if kind (card t) = Internal then (0::nat) else 1"
  let ?ordered = "sort_key ?key (activeThreats s)"
  let ?init = "\<lparr>act_hull = hull s, act_shields = shields s,
                act_threats = activeThreats s, act_crew = crew s,
                act_log = [], act_extraDraw = False\<rparr>"
  let ?P = "\<lambda>u. threat_id u = threat_id b"
  have "b \<in> set ?ordered" using assms(1) by simp
  then obtain pre post where split: "?ordered = pre @ b # post"
    by (meson split_list)
  have "Finite_Set.card (set (map threat_id ?ordered))
      = Finite_Set.card (set (map threat_id (activeThreats s)))"
    by simp
  also have "\<dots> = length (map threat_id (activeThreats s))"
    using assms(2) by (rule distinct_card)
  also have "\<dots> = length (map threat_id ?ordered)"
    by simp
  finally have dist: "distinct (map threat_id ?ordered)"
    by (rule card_distinct)
  then have npre: "threat_id b \<notin> threat_id ` set pre"
    and npost: "threat_id b \<notin> threat_id ` set post"
    unfolding split by auto
  have f0: "find ?P (act_threats ?init) = Some b"
    using find_distinct_key [OF assms(2) assms(1)] by simp
  have f1: "find ?P (act_threats (fold (activateOne rolled) pre ?init)) = Some b"
    using fold_activateOne_find_other [OF npre] f0 by simp
  have stepb: "activateOne rolled b (fold (activateOne rolled) pre ?init)
      = spec_barrier_activation b (fold (activateOne rolled) pre ?init)"
    using activateOne_barrier [OF f1 assms(3) assms(4) assms(5)] assms(8) by simp
  have whole: "activateThreats s rolled =
      fold (activateOne rolled) post
        (spec_barrier_activation b (fold (activateOne rolled) pre ?init))"
    unfolding activateThreats_def Let_def split by (simp add: stepb)
  have "find ?P (act_threats (activateThreats s rolled)) =
      find ?P (act_threats (spec_barrier_activation b (fold (activateOne rolled) pre ?init)))"
    unfolding whole by (rule fold_activateOne_find_other [OF npost])
  also have "\<dots> = Some (b\<lparr>health := maxHealth (card b), isDestroyed := False\<rparr>)"
    by (rule spec_barrier_activation_find [OF f1])
  finally show ?thesis using split whole by blast
qed

text \<open>
  The repository's own scenario: hull 8, no shields, a destroyed barrier next to a
  threat with another symbol. The barrier is back at health 4 and the hull is at 6.
\<close>

theorem barrier_regenerates_and_hits_witness:
  "find (\<lambda>t. threat_id t = ''ouroboros-barrier-2'')
     (act_threats (activateThreats
        (makeInitialState\<lparr>status := Playing, phase := Activating, hull := 8, shields := 0,
           activeThreats :=
             [\<lparr>threat_id = ''pirates-1'', card = PIRATES, health = 4,
               stasisTokens = 0, awayMission = [], isDestroyed = False\<rparr>,
              \<lparr>threat_id = ''ouroboros-barrier-2'', card = OUROBOROS_BARRIER, health = 0,
               stasisTokens = 0, awayMission = [], isDestroyed = True\<rparr>]\<rparr>) Alien))
     = Some \<lparr>threat_id = ''ouroboros-barrier-2'', card = OUROBOROS_BARRIER, health = 4,
              stasisTokens = 0, awayMission = [], isDestroyed = False\<rparr>
   \<and> act_hull (activateThreats
        (makeInitialState\<lparr>status := Playing, phase := Activating, hull := 8, shields := 0,
           activeThreats :=
             [\<lparr>threat_id = ''pirates-1'', card = PIRATES, health = 4,
               stasisTokens = 0, awayMission = [], isDestroyed = False\<rparr>,
              \<lparr>threat_id = ''ouroboros-barrier-2'', card = OUROBOROS_BARRIER, health = 0,
               stasisTokens = 0, awayMission = [], isDestroyed = True\<rparr>]\<rparr>) Alien) = 6"
proof -
  let ?b = "\<lparr>threat_id = ''ouroboros-barrier-2'', card = OUROBOROS_BARRIER, health = 0,
             stasisTokens = 0, awayMission = [], isDestroyed = True\<rparr>"
  let ?s = "makeInitialState\<lparr>status := Playing, phase := Activating, hull := 8, shields := 0,
           activeThreats :=
             [\<lparr>threat_id = ''pirates-1'', card = PIRATES, health = 4,
               stasisTokens = 0, awayMission = [], isDestroyed = False\<rparr>, ?b]\<rparr>"
  have p1: "?b \<in> set (activeThreats ?s)" by simp
  have p2: "distinct (map threat_id (activeThreats ?s))" by simp
  have p3: "kind (card ?b) = BossBarrier" by (simp add: OUROBOROS_BARRIER_def)
  have p4: "isBarrier (card ?b)" by (simp add: OUROBOROS_BARRIER_def)
  have p5: "activation (card ?b) = Alien" by (simp add: OUROBOROS_BARRIER_def)
  have p6: "health ?b = 0" and p7: "isDestroyed ?b" and p8: "stasisTokens ?b = 0" by simp_all
  from barrier_regenerates_and_hits [OF p1 p2 p3 p4 p5 p6 p7 p8]
  have "find (\<lambda>t. threat_id t = threat_id ?b) (act_threats (activateThreats ?s Alien))
      = Some (?b\<lparr>health := maxHealth (card ?b), isDestroyed := False\<rparr>)"
    by blast
  then have regen: "find (\<lambda>t. threat_id t = ''ouroboros-barrier-2'')
      (act_threats (activateThreats ?s Alien))
      = Some \<lparr>threat_id = ''ouroboros-barrier-2'', card = OUROBOROS_BARRIER, health = 4,
              stasisTokens = 0, awayMission = [], isDestroyed = False\<rparr>"
    by (simp add: OUROBOROS_BARRIER_def)
  have "act_hull (activateThreats ?s Alien) = 6"
    by (simp add: activateThreats_def activateOne_def dealDamage_def Let_def
        PIRATES_def OUROBOROS_BARRIER_def applyDamage_hull_shields)
  with regen show ?thesis by simp
qed

text \<open>
  Claim C8, as amended. In a state with hull 8 and no shields whose only active threat
  is the Pirates card (external, symbol skull, health 4, 2 hull damage), the
  activation pass on a rolled skull leaves the hull at 6 and the shields at 0, and
  leaves the threat as it was: its health is still 4. Activation damages the ship,
  never the threat.
\<close>

theorem pirates_activation:
  assumes "hull s = 8" and "shields s = 0" and "activeThreats s = [t]"
    and "card t = PIRATES" and "health t = 4" and "\<not> isDestroyed t" and "stasisTokens t = 0"
  shows "act_hull (activateThreats s Skull) = 6
       \<and> act_shields (activateThreats s Skull) = 0
       \<and> act_threats (activateThreats s Skull) = [t]
       \<and> map health (act_threats (activateThreats s Skull)) = [4]"
  using assms
  by (simp add: activateThreats_def activateOne_def cardEffect_def dealDamage_def Let_def
      PIRATES_def applyDamage_hull_shields)

theorem pirates_activation_witness:
  "act_hull (activateThreats
      (makeInitialState\<lparr>status := Playing, phase := Activating, hull := 8, shields := 0,
         activeThreats := [\<lparr>threat_id = ''pirates-1'', card = PIRATES, health = 4,
           stasisTokens = 0, awayMission = [], isDestroyed = False\<rparr>]\<rparr>) Skull) = 6
   \<and> map health (act_threats (activateThreats
      (makeInitialState\<lparr>status := Playing, phase := Activating, hull := 8, shields := 0,
         activeThreats := [\<lparr>threat_id = ''pirates-1'', card = PIRATES, health = 4,
           stasisTokens = 0, awayMission = [], isDestroyed = False\<rparr>]\<rparr>) Skull)) = [4]"
  using pirates_activation [of
      "makeInitialState\<lparr>status := Playing, phase := Activating, hull := 8, shields := 0,
         activeThreats := [\<lparr>threat_id = ''pirates-1'', card = PIRATES, health = 4,
           stasisTokens = 0, awayMission = [], isDestroyed = False\<rparr>]\<rparr>"
      "\<lparr>threat_id = ''pirates-1'', card = PIRATES, health = 4,
           stasisTokens = 0, awayMission = [], isDestroyed = False\<rparr>"]
  by simp

text \<open>
  The claim as it was stated (hull 6 and the threat's health 2) fails on that state:
  the hull is 6 but the health stays 4.
\<close>

theorem pirates_health_counterexample:
  "\<not> (act_hull (activateThreats
      (makeInitialState\<lparr>status := Playing, phase := Activating, hull := 8, shields := 0,
         activeThreats := [\<lparr>threat_id = ''pirates-1'', card = PIRATES, health = 4,
           stasisTokens = 0, awayMission = [], isDestroyed = False\<rparr>]\<rparr>) Skull) = 6
   \<and> map health (act_threats (activateThreats
      (makeInitialState\<lparr>status := Playing, phase := Activating, hull := 8, shields := 0,
         activeThreats := [\<lparr>threat_id = ''pirates-1'', card = PIRATES, health = 4,
           stasisTokens = 0, awayMission = [], isDestroyed = False\<rparr>]\<rparr>) Skull)) = [2])"
  by (simp add: activateThreats_def activateOne_def cardEffect_def dealDamage_def Let_def
      PIRATES_def applyDamage_hull_shields)

subsection \<open>Drawing from an empty deck\<close>

lemma drawAndProcessCard_empty: "deck s = [] \<Longrightarrow> drawAndProcessCard w s = (s, w)"
  by (simp add: drawAndProcessCard_def drawCard_def)

text \<open>
  Claim C10. When the deck is empty every draw site is a silent no-op: \<open>drawCard\<close>
  returns the empty result, \<open>drawAndProcessCard\<close> returns the state (and the hidden
  state) it was given, so deck, discard, active threats, hull, shields and crew are
  unchanged, and \<open>END_ASSIGN_PHASE\<close>, dispatched while playing in the assigning phase,
  still moves the phase to drawing, with the deck still empty and no card drawn, put
  in play or discarded.
\<close>

theorem empty_deck_draw_is_noop:
  assumes "deck s = []"
  shows "drawCard (deck s) = None
       \<and> drawAndProcessCard w s = (s, w)
       \<and> (status s = Playing \<and> phase s = Assigning \<longrightarrow>
            phase (fst (gameReducer w s END_ASSIGN_PHASE)) = Drawing
          \<and> deck (fst (gameReducer w s END_ASSIGN_PHASE)) = []
          \<and> drawnCard (fst (gameReducer w s END_ASSIGN_PHASE)) = drawnCard s
          \<and> discard (fst (gameReducer w s END_ASSIGN_PHASE)) = discard s
          \<and> activeThreats (fst (gameReducer w s END_ASSIGN_PHASE)) = activeThreats s
          \<and> crew (fst (gameReducer w s END_ASSIGN_PHASE)) = crew s
          \<and> snd (gameReducer w s END_ASSIGN_PHASE) = w)"
  using assms
  by (simp add: drawCard_def drawAndProcessCard_empty Let_def)

theorem empty_deck_draw_is_noop_witness:
  "deck (makeInitialState\<lparr>status := Playing, phase := Assigning\<rparr>) = []
   \<and> status (makeInitialState\<lparr>status := Playing, phase := Assigning\<rparr>) = Playing
   \<and> phase (makeInitialState\<lparr>status := Playing, phase := Assigning\<rparr>) = Assigning
   \<and> drawAndProcessCard \<lparr>instanceCounter = 0, rng = (\<lambda>n. 0), rngPos = 0\<rparr>
        (makeInitialState\<lparr>status := Playing, phase := Assigning\<rparr>)
       = (makeInitialState\<lparr>status := Playing, phase := Assigning\<rparr>,
          \<lparr>instanceCounter = 0, rng = (\<lambda>n. 0), rngPos = 0\<rparr>)
   \<and> phase (fst (gameReducer \<lparr>instanceCounter = 0, rng = (\<lambda>n. 0), rngPos = 0\<rparr>
        (makeInitialState\<lparr>status := Playing, phase := Assigning\<rparr>) END_ASSIGN_PHASE)) = Drawing
   \<and> drawnCard (fst (gameReducer \<lparr>instanceCounter = 0, rng = (\<lambda>n. 0), rngPos = 0\<rparr>
        (makeInitialState\<lparr>status := Playing, phase := Assigning\<rparr>) END_ASSIGN_PHASE)) = None"
  using empty_deck_draw_is_noop [of "makeInitialState\<lparr>status := Playing, phase := Assigning\<rparr>"
      "\<lparr>instanceCounter = 0, rng = (\<lambda>n. 0), rngPos = 0\<rparr>"]
  by (simp add: makeInitialState_def)

subsection \<open>The crew invariant\<close>

lemma map_ids_cong:
  "(\<And>d. die_id (f d) = die_id d) \<Longrightarrow> map die_id (map f cs) = map die_id cs"
  by (induction cs) auto

lemma ids_sendToInfirmary_loop:
  "map die_id (fst (sendToInfirmary_loop cs cnt sent)) = map die_id cs"
  by (induction cs cnt sent rule: sendToInfirmary_loop.induct) (auto split: prod.splits)

lemma ids_sendCrew: "map die_id (act_crew (sendCrew acc n)) = map die_id (act_crew acc)"
  using ids_sendToInfirmary_loop [of "act_crew acc" n 0]
  by (auto simp: sendCrew_def sendToInfirmary_def split: prod.splits)

lemma dealDamage_crew [simp]: "act_crew (dealDamage acc a b) = act_crew acc"
  by (simp add: dealDamage_def Let_def)

lemma ids_cardEffect: "map die_id (act_crew (cardEffect t acc)) = map die_id (act_crew acc)"
  by (simp add: cardEffect_def Let_def ids_sendCrew map_ids_cong split: list.splits)

lemma ids_activateOne: "map die_id (act_crew (activateOne f t acc)) = map die_id (act_crew acc)"
  by (simp add: activateOne_def Let_def ids_cardEffect split: option.splits)

lemma ids_fold_activateOne:
  "map die_id (act_crew (fold (activateOne f) ts acc)) = map die_id (act_crew acc)"
  by (induction ts arbitrary: acc) (simp_all add: ids_activateOne)

lemma ids_activateThreats: "map die_id (act_crew (activateThreats s f)) = map die_id (crew s)"
  by (simp add: activateThreats_def Let_def ids_fold_activateOne)

lemma ids_applyRevealEffect:
  "re_crew (fst (applyRevealEffect w s c)) = Some cs \<Longrightarrow> map die_id cs = map die_id (crew s)"
  by (auto simp: applyRevealEffect_def noRevealEffects_def Let_def map_ids_cong
      split: if_splits prod.splits option.splits)

lemma ids_drawAndProcessCard:
  "map die_id (crew (fst (drawAndProcessCard w s))) = map die_id (crew s)"
proof (cases "drawCard (deck s)")
  case None
  then show ?thesis by (simp add: drawAndProcessCard_def)
next
  case (Some p)
  obtain c rest where p: "p = (c, rest)" by (cases p)
  let ?log0 = "log s @ [''Threat card drawn: '' @ card_name c @ ''.'']"
  obtain re w1 where re: "applyRevealEffect w (s\<lparr>deck := rest, log := ?log0\<rparr>) c = (re, w1)"
    by (cases "applyRevealEffect w (s\<lparr>deck := rest, log := ?log0\<rparr>) c")
  have "re_crew re = Some cs \<Longrightarrow> map die_id cs = map die_id (crew s)" for cs
    using ids_applyRevealEffect [of w "s\<lparr>deck := rest, log := ?log0\<rparr>" c cs] re by simp
  then have "map die_id (crew (spreadRevealEffects s re)) = map die_id (crew s)"
    by (simp add: spreadRevealEffects_def split: option.splits)
  then show ?thesis
    using Some p re
    by (simp add: drawAndProcessCard_def Let_def split: prod.splits)
qed

lemma ids_scannerDrawStep:
  "map die_id (crew (fst (scannerDrawStep n i sw))) = map die_id (crew (fst sw))"
  using ids_drawAndProcessCard [of "snd sw" "fst sw"]
  by (auto simp: scannerDrawStep_def split: prod.splits)

lemma ids_fold_scannerDrawStep:
  "map die_id (crew (fst (fold (scannerDrawStep n) is sw))) = map die_id (crew (fst sw))"
  by (induction "is" arbitrary: sw) (simp_all add: ids_scannerDrawStep)

lemma ids_rerollDrawStep:
  "map die_id (crew (fst (rerollDrawStep i sw))) = map die_id (crew (fst sw))"
  using ids_drawAndProcessCard [of "snd sw" "fst sw"]
  by (auto simp: rerollDrawStep_def split: prod.splits)

lemma ids_fold_rerollDrawStep:
  "map die_id (crew (fst (fold rerollDrawStep is sw))) = map die_id (crew (fst sw))"
  by (induction "is" arbitrary: sw) (simp_all add: ids_rerollDrawStep)

lemma ids_processScanners: "map die_id (fst (processScanners cs)) = map die_id cs"
  by (simp add: processScanners_def Let_def map_ids_cong)

lemma ids_processResolvedStep:
  "map die_id (crew (processResolvedStep t s)) = map die_id (crew s)"
  by (simp add: processResolvedStep_def resolveThreat_def Let_def map_ids_cong)

lemma ids_processResolvedThreats:
  "map die_id (crew (processResolvedThreats s)) = map die_id (crew s)"
proof -
  have "map die_id (crew (fold processResolvedStep ts s)) = map die_id (crew s)" for ts
    by (induction ts arbitrary: s) (simp_all add: ids_processResolvedStep)
  then show ?thesis by (simp add: processResolvedThreats_def)
qed

lemma ids_releaseFromScanners: "map die_id (releaseFromScanners cs) = map die_id cs"
  by (induction cs) auto

lemma ids_resolveMedical: "map die_id (resolveMedical cs) = map die_id cs"
  by (simp add: resolveMedical_def map_ids_cong)

lemma ids_commanderChangeDie: "map die_id (commanderChangeDie cs i f) = map die_id cs"
  by (simp add: commanderChangeDie_def map_ids_cong)

lemma ids_gatherCrew: "map die_id (gatherCrew cs ts) = map die_id cs"
  by (simp add: gatherCrew_def Let_def map_ids_cong split: DieLocation.splits)

lemma ids_initialCrew: "map die_id initialCrew = [0, 1, 2, 3, 4, 5]"
  by (simp add: initialCrew_def upt_rec)

lemma ids_startNewGame: "map die_id (crew (fst (startNewGame w dif))) = [0, 1, 2, 3, 4, 5]"
proof -
  obtain dk w1 where bd: "buildDeck w dif = (dk, w1)" by (cases "buildDeck w dif")
  let ?s0 = "makeInitialState\<lparr>status := Playing, phase := Rolling,
                          difficulty := dif, deck := dk, crew := initialCrew,
                          log := [''Game started. Drawing 2 initial threat cards...''],
                          turnNumber := 1, setupDrawsRemaining := 2\<rparr>"
  have "map die_id (crew (fst (drawAndProcessCard w1 ?s0))) = map die_id (crew ?s0)"
    by (rule ids_drawAndProcessCard)
  then show ?thesis
    by (auto simp: startNewGame_def bd Let_def ids_initialCrew makeInitialState_def
        split: prod.splits)
qed

lemma ids_comp [simp]:
  "(\<And>d. die_id (f d) = die_id d) \<Longrightarrow> map (die_id \<circ> f) cs = map die_id cs"
  by (induction cs) auto

lemma ids_processScanners_eq:
  "processScanners cs = (cas, n) \<Longrightarrow> map die_id cas = map die_id cs"
  using ids_processScanners [of cs] by simp

lemma ids_fold_scannerDrawStep_eq:
  "fold (scannerDrawStep n) is (s0, w0) = (s', w') \<Longrightarrow> map die_id (crew s') = map die_id (crew s0)"
  using ids_fold_scannerDrawStep [of n "is" "(s0, w0)"] by simp

lemma ids_fold_rerollDrawStep_eq:
  "fold rerollDrawStep is (s0, w0) = (s', w') \<Longrightarrow> map die_id (crew s') = map die_id (crew s0)"
  using ids_fold_rerollDrawStep [of "is" "(s0, w0)"] by simp

lemma ids_drawAndProcessCard_eq:
  "drawAndProcessCard w s = (s', w') \<Longrightarrow> map die_id (crew s') = map die_id (crew s)"
  using ids_drawAndProcessCard [of w s] by simp

lemma ids_ROLL_COMPLETE:
  "map die_id (crew (fst (gameReducer w s (ROLL_COMPLETE faces)))) = map die_id (crew s)"
  by (auto simp: Let_def split: prod.splits option.splits
      dest!: ids_processScanners_eq ids_fold_scannerDrawStep_eq)

lemma ids_ASSIGN_TO_STATION:
  "map die_id (crew (fst (gameReducer w s (ASSIGN_TO_STATION i st)))) = map die_id (crew s)"
  by (simp add: Let_def split: option.splits)

lemma ids_ASSIGN_TO_THREAT:
  "map die_id (crew (fst (gameReducer w s (ASSIGN_TO_THREAT i tid)))) = map die_id (crew s)"
  by (simp add: Let_def ids_processResolvedThreats split: option.splits)

lemma ids_USE_COMMANDER_REROLL:
  "map die_id (crew (fst (gameReducer w s USE_COMMANDER_REROLL))) = map die_id (crew s)"
  by (auto simp: Let_def split: prod.splits
      dest!: ids_processScanners_eq ids_fold_rerollDrawStep_eq)

lemma ids_USE_COMMANDER_CHANGE:
  "map die_id (crew (fst (gameReducer w s (USE_COMMANDER_CHANGE i f)))) = map die_id (crew s)"
  by (simp add: Let_def ids_commanderChangeDie)

lemma ids_END_ASSIGN_PHASE:
  "map die_id (crew (fst (gameReducer w s END_ASSIGN_PHASE))) = map die_id (crew s)"
  by (auto simp: Let_def split: prod.splits dest!: ids_drawAndProcessCard_eq)

lemma ids_ACKNOWLEDGE_DRAW:
  "map die_id (crew (fst (gameReducer w s ACKNOWLEDGE_DRAW))) = map die_id (crew s)"
  by (auto simp: Let_def split: prod.splits dest!: ids_drawAndProcessCard_eq)

lemma ids_THREAT_ROLL_COMPLETE:
  "map die_id (crew (fst (gameReducer w s (THREAT_ROLL_COMPLETE f)))) = map die_id (crew s)"
  by (auto simp: Let_def ids_activateThreats split: prod.splits dest!: ids_drawAndProcessCard_eq)

lemma ids_gameReducer:
  assumes "\<And>st. a \<noteq> TEST_LOAD_STATE st" and "\<And>dif. a \<noteq> NEW_GAME dif"
  shows "map die_id (crew (fst (gameReducer w s a))) = map die_id (crew s)"
proof (cases a)
  case (TEST_LOAD_STATE x)
  then show ?thesis using assms by simp
next
  case (NEW_GAME x)
  then show ?thesis using assms by simp
next
  case (ROLL_COMPLETE x)
  then show ?thesis by (simp only: ids_ROLL_COMPLETE)
next
  case (ASSIGN_TO_STATION x y)
  then show ?thesis by (simp only: ids_ASSIGN_TO_STATION)
next
  case (ASSIGN_TO_THREAT x y)
  then show ?thesis by (simp only: ids_ASSIGN_TO_THREAT)
next
  case USE_COMMANDER_REROLL
  then show ?thesis by (simp only: ids_USE_COMMANDER_REROLL)
next
  case (USE_COMMANDER_CHANGE x y)
  then show ?thesis by (simp only: ids_USE_COMMANDER_CHANGE)
next
  case END_ASSIGN_PHASE
  then show ?thesis by (simp only: ids_END_ASSIGN_PHASE)
next
  case ACKNOWLEDGE_DRAW
  then show ?thesis by (simp only: ids_ACKNOWLEDGE_DRAW)
next
  case (THREAT_ROLL_COMPLETE x)
  then show ?thesis by (simp only: ids_THREAT_ROLL_COMPLETE)
next
  case USE_MEDICAL
  then show ?thesis by (simp add: Let_def ids_resolveMedical)
next
  case USE_MEDICAL_SCANNERS
  then show ?thesis by (simp add: Let_def ids_releaseFromScanners)
next
  case (USE_TACTICAL x)
  then show ?thesis by (simp add: Let_def split: option.splits)
next
  case (USE_SCIENCE_STASIS x)
  then show ?thesis by (simp add: Let_def split: option.splits)
next
  case ACKNOWLEDGE_GATHER
  then show ?thesis by (simp add: Let_def ids_gatherCrew)
qed (simp_all add: Let_def)

text \<open>
  Claim C6. If the crew of a state holds exactly 6 dice with distinct ids, then so does
  the crew of the state the reducer returns for any action other than the raw state
  load (for every content of the hidden state). Every action but \<open>NEW_GAME\<close> keeps the
  list of die ids as it is, and \<open>NEW_GAME\<close> starts from the ids 0 to 5. A die's location
  is one field of its record, so every die of the result is in exactly one place.
\<close>

theorem reducer_keeps_six_distinct_dice:
  assumes "length (crew s) = 6" and "distinct (map die_id (crew s))"
    and "\<And>loaded. a \<noteq> TEST_LOAD_STATE loaded"
  shows "length (crew (fst (gameReducer w s a))) = 6
       \<and> distinct (map die_id (crew (fst (gameReducer w s a))))
       \<and> (\<forall>d \<in> set (crew (fst (gameReducer w s a))). \<exists>!l. location d = l)"
proof -
  let ?s' = "fst (gameReducer w s a)"
  have len: "length (crew ?s') = length (map die_id (crew ?s'))"
    by simp
  have "length (crew ?s') = 6 \<and> distinct (map die_id (crew ?s'))"
  proof (cases "\<exists>dif. a = NEW_GAME dif")
    case True
    then obtain dif where a: "a = NEW_GAME dif" by blast
    have ids: "map die_id (crew ?s') = [0, 1, 2, 3, 4, 5]"
      by (simp add: a ids_startNewGame)
    show ?thesis unfolding len unfolding ids by simp
  next
    case False
    then have ids: "map die_id (crew ?s') = map die_id (crew s)"
      using assms(3) by (intro ids_gameReducer) auto
    show ?thesis unfolding len unfolding ids using assms(1,2) by simp
  qed
  then show ?thesis by simp
qed

theorem reducer_keeps_six_distinct_dice_witness:
  "length (crew (makeInitialState\<lparr>status := Playing, phase := Assigning\<rparr>)) = 6
   \<and> distinct (map die_id (crew (makeInitialState\<lparr>status := Playing, phase := Assigning\<rparr>)))
   \<and> length (crew (fst (gameReducer \<lparr>instanceCounter = 0, rng = (\<lambda>n. 0), rngPos = 0\<rparr>
        (makeInitialState\<lparr>status := Playing, phase := Assigning\<rparr>)
        (ASSIGN_TO_STATION 2 Tactical)))) = 6
   \<and> distinct (map die_id (crew (fst (gameReducer \<lparr>instanceCounter = 0, rng = (\<lambda>n. 0), rngPos = 0\<rparr>
        (makeInitialState\<lparr>status := Playing, phase := Assigning\<rparr>)
        (ASSIGN_TO_STATION 2 Tactical)))))
   \<and> map location (crew (fst (gameReducer \<lparr>instanceCounter = 0, rng = (\<lambda>n. 0), rngPos = 0\<rparr>
        (makeInitialState\<lparr>status := Playing, phase := Assigning\<rparr>)
        (ASSIGN_TO_STATION 2 Tactical))))
      = [Pool, Pool, AtStation Tactical, Pool, Pool, Pool]"
proof -
  let ?s = "makeInitialState\<lparr>status := Playing, phase := Assigning\<rparr>"
  let ?w = "\<lparr>instanceCounter = 0, rng = (\<lambda>n. 0), rngPos = 0\<rparr>"
  have h1: "length (crew ?s) = 6"
    by (simp add: makeInitialState_def initialCrew_def)
  have h2: "distinct (map die_id (crew ?s))"
    by (simp add: makeInitialState_def ids_initialCrew)
  have h3: "ASSIGN_TO_STATION 2 Tactical \<noteq> TEST_LOAD_STATE loaded" for loaded
    by simp
  have loc: "map location (crew (fst (gameReducer ?w ?s (ASSIGN_TO_STATION 2 Tactical))))
      = [Pool, Pool, AtStation Tactical, Pool, Pool, Pool]"
    by (simp add: makeInitialState_def initialCrew_def upt_rec Let_def)
  from reducer_keeps_six_distinct_dice [OF h1 h2 h3, of ?w] h1 h2 loc
  show ?thesis by simp
qed

subsection \<open>Station assignment and the once-per-turn budget\<close>

text \<open>
  What the reducer does reject: an action outside its status or phase, an assignment
  of an unknown die, of a die that is not in the pool, or to an unknown threat, an
  away-mission assignment that \<open>canAssignToThreat\<close> refuses, fire or stasis on an
  unknown threat, and a second use of a budgeted ability.
\<close>

lemma reducer_rejects_wrong_phase:
  assumes "actionPhase a = Some p" and "status s \<noteq> Playing \<or> phase s \<noteq> p"
  shows "gameReducer w s a = (s, w)"
  using assms by (cases a) auto

lemma assignment_rejects_unknown_or_unavailable:
  shows "find (\<lambda>d. die_id d = i) (crew s) = None \<Longrightarrow>
           gameReducer w s (ASSIGN_TO_STATION i st) = (s, w)"
    and "find (\<lambda>d. die_id d = i) (crew s) = Some d \<Longrightarrow> location d \<noteq> Pool \<Longrightarrow>
           gameReducer w s (ASSIGN_TO_STATION i st) = (s, w)"
    and "find (\<lambda>d. die_id d = i) (crew s) = None \<Longrightarrow>
           gameReducer w s (ASSIGN_TO_THREAT i tid) = (s, w)"
    and "find (\<lambda>t. threat_id t = tid) (activeThreats s) = None \<Longrightarrow>
           gameReducer w s (ASSIGN_TO_THREAT i tid) = (s, w)"
    and "find (\<lambda>d. die_id d = i) (crew s) = Some d \<Longrightarrow>
         find (\<lambda>t. threat_id t = tid) (activeThreats s) = Some t \<Longrightarrow>
         \<not> canAssignToThreat d t (phase s) \<Longrightarrow>
           gameReducer w s (ASSIGN_TO_THREAT i tid) = (s, w)"
    and "find (\<lambda>t. threat_id t = tid) (activeThreats s) = None \<Longrightarrow>
           gameReducer w s (USE_TACTICAL tid) = (s, w)"
    and "find (\<lambda>t. threat_id t = tid) (activeThreats s) = None \<Longrightarrow>
           gameReducer w s (USE_SCIENCE_STASIS tid) = (s, w)"
  by (auto simp: Let_def canAssignToThreat_def split: option.splits)

lemma budgeted_abilities_once_per_turn:
  shows "''USE_MEDICAL'' \<in> set (usedStationActions s) \<Longrightarrow>
           gameReducer w s USE_MEDICAL = (s, w)"
    and "''USE_SCIENCE'' \<in> set (usedStationActions s) \<Longrightarrow>
           gameReducer w s USE_SCIENCE_SHIELDS = (s, w)"
    and "''USE_SCIENCE'' \<in> set (usedStationActions s) \<Longrightarrow>
           gameReducer w s (USE_SCIENCE_STASIS tid) = (s, w)"
    and "''USE_COMMANDER'' \<in> set (usedStationActions s) \<Longrightarrow>
           gameReducer w s USE_COMMANDER_REROLL = (s, w)"
    and "''USE_COMMANDER'' \<in> set (usedStationActions s) \<Longrightarrow>
           gameReducer w s (USE_COMMANDER_CHANGE i f) = (s, w)"
  by simp_all

text \<open>
  Claim C1 does not hold of the reducer: \<open>ASSIGN_TO_STATION\<close> checks the status, the
  phase, that the die exists and that it is in the pool, and nothing else of
  \<open>canAssignToStation\<close>. In the state below, with Comms Offline in play, the reducer
  moves a tactical die onto the medical station, moves it onto the infirmary, and
  moves a commander die onto the disabled commander station, although
  \<open>canAssignToStation\<close> rejects all three.
\<close>

theorem assign_ineligible_die_accepted:
  "\<not> canAssignToStation \<lparr>die_id = 0, face = FTactical, location = Pool\<rparr> Medical True
   \<and> crew (fst (gameReducer w
        (makeInitialState\<lparr>status := Playing, phase := Assigning,
           crew := [\<lparr>die_id = 0, face = FTactical, location = Pool\<rparr>,
                    \<lparr>die_id = 1, face = FCommander, location = Pool\<rparr>],
           activeThreats := [\<lparr>threat_id = ''comms-offline-1'', card = COMMS_OFFLINE, health = 0,
             stasisTokens = 0, awayMission = [], isDestroyed = False\<rparr>],
           commsOfflineActive := True\<rparr>)
        (ASSIGN_TO_STATION 0 Medical)))
      = [\<lparr>die_id = 0, face = FTactical, location = AtStation Medical\<rparr>,
         \<lparr>die_id = 1, face = FCommander, location = Pool\<rparr>]
   \<and> \<not> canAssignToStation \<lparr>die_id = 0, face = FTactical, location = Pool\<rparr> Infirmary True
   \<and> crew (fst (gameReducer w
        (makeInitialState\<lparr>status := Playing, phase := Assigning,
           crew := [\<lparr>die_id = 0, face = FTactical, location = Pool\<rparr>,
                    \<lparr>die_id = 1, face = FCommander, location = Pool\<rparr>],
           activeThreats := [\<lparr>threat_id = ''comms-offline-1'', card = COMMS_OFFLINE, health = 0,
             stasisTokens = 0, awayMission = [], isDestroyed = False\<rparr>],
           commsOfflineActive := True\<rparr>)
        (ASSIGN_TO_STATION 0 Infirmary)))
      = [\<lparr>die_id = 0, face = FTactical, location = AtStation Infirmary\<rparr>,
         \<lparr>die_id = 1, face = FCommander, location = Pool\<rparr>]
   \<and> \<not> canAssignToStation \<lparr>die_id = 1, face = FCommander, location = Pool\<rparr> Commander True
   \<and> crew (fst (gameReducer w
        (makeInitialState\<lparr>status := Playing, phase := Assigning,
           crew := [\<lparr>die_id = 0, face = FTactical, location = Pool\<rparr>,
                    \<lparr>die_id = 1, face = FCommander, location = Pool\<rparr>],
           activeThreats := [\<lparr>threat_id = ''comms-offline-1'', card = COMMS_OFFLINE, health = 0,
             stasisTokens = 0, awayMission = [], isDestroyed = False\<rparr>],
           commsOfflineActive := True\<rparr>)
        (ASSIGN_TO_STATION 1 Commander)))
      = [\<lparr>die_id = 0, face = FTactical, location = Pool\<rparr>,
         \<lparr>die_id = 1, face = FCommander, location = AtStation Commander\<rparr>]"
  by (simp add: canAssignToStation_def makeInitialState_def withPassiveFlags_def Let_def)

theorem assign_ineligible_die_accepted_witness:
  "crew (fst (gameReducer \<lparr>instanceCounter = 0, rng = (\<lambda>n. 0), rngPos = 0\<rparr>
        (makeInitialState\<lparr>status := Playing, phase := Assigning,
           crew := [\<lparr>die_id = 0, face = FTactical, location = Pool\<rparr>,
                    \<lparr>die_id = 1, face = FCommander, location = Pool\<rparr>],
           activeThreats := [\<lparr>threat_id = ''comms-offline-1'', card = COMMS_OFFLINE, health = 0,
             stasisTokens = 0, awayMission = [], isDestroyed = False\<rparr>],
           commsOfflineActive := True\<rparr>)
        (ASSIGN_TO_STATION 0 Medical)))
      = [\<lparr>die_id = 0, face = FTactical, location = AtStation Medical\<rparr>,
         \<lparr>die_id = 1, face = FCommander, location = Pool\<rparr>]"
  using assign_ineligible_die_accepted [of "\<lparr>instanceCounter = 0, rng = (\<lambda>n. 0), rngPos = 0\<rparr>"]
  by blast

text \<open>
  Claim C9 does not hold of the reducer: \<open>USE_MEDICAL_SCANNERS\<close> neither reads nor
  writes \<open>usedStationActions\<close>. In the state below one die is on the medical
  station; after \<open>USE_MEDICAL\<close> has been applied (and recorded), the scanner release
  still takes effect, and it takes effect a second time in the same phase.
\<close>

theorem scanner_release_not_once_per_turn:
  "usedStationActions (fst (gameReducer w
      (makeInitialState\<lparr>status := Playing, phase := Assigning,
         crew := [\<lparr>die_id = 0, face = FMedical, location = AtStation Medical\<rparr>,
                  \<lparr>die_id = 1, face = FThreat, location = AtStation Scanners\<rparr>,
                  \<lparr>die_id = 2, face = FThreat, location = AtStation Scanners\<rparr>,
                  \<lparr>die_id = 3, face = FTactical, location = AtStation Infirmary\<rparr>]\<rparr>)
      USE_MEDICAL)) = [''USE_MEDICAL'']
   \<and> crew (fst (gameReducer w
      (makeInitialState\<lparr>status := Playing, phase := Assigning,
         crew := [\<lparr>die_id = 0, face = FMedical, location = AtStation Medical\<rparr>,
                  \<lparr>die_id = 1, face = FThreat, location = AtStation Scanners\<rparr>,
                  \<lparr>die_id = 2, face = FThreat, location = AtStation Scanners\<rparr>,
                  \<lparr>die_id = 3, face = FTactical, location = AtStation Infirmary\<rparr>]\<rparr>)
      USE_MEDICAL))
      = [\<lparr>die_id = 0, face = FMedical, location = AtStation Medical\<rparr>,
         \<lparr>die_id = 1, face = FThreat, location = AtStation Scanners\<rparr>,
         \<lparr>die_id = 2, face = FThreat, location = AtStation Scanners\<rparr>,
         \<lparr>die_id = 3, face = FTactical, location = Pool\<rparr>]
   \<and> crew (fst (gameReducer w (fst (gameReducer w
      (makeInitialState\<lparr>status := Playing, phase := Assigning,
         crew := [\<lparr>die_id = 0, face = FMedical, location = AtStation Medical\<rparr>,
                  \<lparr>die_id = 1, face = FThreat, location = AtStation Scanners\<rparr>,
                  \<lparr>die_id = 2, face = FThreat, location = AtStation Scanners\<rparr>,
                  \<lparr>die_id = 3, face = FTactical, location = AtStation Infirmary\<rparr>]\<rparr>)
      USE_MEDICAL)) USE_MEDICAL_SCANNERS))
      = [\<lparr>die_id = 0, face = FMedical, location = AtStation Medical\<rparr>,
         \<lparr>die_id = 1, face = FThreat, location = Pool\<rparr>,
         \<lparr>die_id = 2, face = FThreat, location = AtStation Scanners\<rparr>,
         \<lparr>die_id = 3, face = FTactical, location = Pool\<rparr>]
   \<and> crew (fst (gameReducer w (fst (gameReducer w (fst (gameReducer w
      (makeInitialState\<lparr>status := Playing, phase := Assigning,
         crew := [\<lparr>die_id = 0, face = FMedical, location = AtStation Medical\<rparr>,
                  \<lparr>die_id = 1, face = FThreat, location = AtStation Scanners\<rparr>,
                  \<lparr>die_id = 2, face = FThreat, location = AtStation Scanners\<rparr>,
                  \<lparr>die_id = 3, face = FTactical, location = AtStation Infirmary\<rparr>]\<rparr>)
      USE_MEDICAL)) USE_MEDICAL_SCANNERS)) USE_MEDICAL_SCANNERS))
      = [\<lparr>die_id = 0, face = FMedical, location = AtStation Medical\<rparr>,
         \<lparr>die_id = 1, face = FThreat, location = Pool\<rparr>,
         \<lparr>die_id = 2, face = FThreat, location = Pool\<rparr>,
         \<lparr>die_id = 3, face = FTactical, location = Pool\<rparr>]"
  by (simp add: makeInitialState_def resolveMedical_def Let_def)

theorem scanner_release_not_once_per_turn_witness:
  "usedStationActions (fst (gameReducer \<lparr>instanceCounter = 0, rng = (\<lambda>n. 0), rngPos = 0\<rparr>
      (makeInitialState\<lparr>status := Playing, phase := Assigning,
         crew := [\<lparr>die_id = 0, face = FMedical, location = AtStation Medical\<rparr>,
                  \<lparr>die_id = 1, face = FThreat, location = AtStation Scanners\<rparr>,
                  \<lparr>die_id = 2, face = FThreat, location = AtStation Scanners\<rparr>,
                  \<lparr>die_id = 3, face = FTactical, location = AtStation Infirmary\<rparr>]\<rparr>)
      USE_MEDICAL)) = [''USE_MEDICAL'']"
  using scanner_release_not_once_per_turn [of "\<lparr>instanceCounter = 0, rng = (\<lambda>n. 0), rngPos = 0\<rparr>"]
  by blast

end
